theory Spec2Isabelle
  imports Main "HOL-Library.Word"
begin

section \<open>Authentication and credential lifecycle of the tour-booking application\<close>

text \<open>
  The development embeds the user model (\<^verbatim>\<open>models/userModel.js\<close>) and the
  authentication controller (\<^verbatim>\<open>signup\<close>, \<^verbatim>\<open>login\<close>, \<^verbatim>\<open>protect\<close>,
  \<^verbatim>\<open>isLoggedIn\<close>, \<^verbatim>\<open>forgotPassword\<close>, \<^verbatim>\<open>resetPassword\<close>).
  Times are integers: \<^verbatim>\<open>Date\<close> values and \<^verbatim>\<open>Date.now()\<close> are milliseconds
  since the epoch, the \<^verbatim>\<open>iat\<close> of a token is in seconds.
  A string that may be \<^verbatim>\<open>undefined\<close> is an \<open>option\<close>; a field of the JSON body
  is a \<open>jsvalue\<close>, since \<^verbatim>\<open>express.json()\<close> hands over whatever the client sent.
\<close>

subsection \<open>The user document\<close>

text \<open>
  The fields of the schema. The same record is the stored row and the document in memory;
  \<open>passwordConfirm\<close> is never stored (the first save hook sets it to \<^verbatim>\<open>undefined\<close>),
  and \<open>password\<close> is \<open>None\<close> in a document loaded without \<^verbatim>\<open>select('+password')\<close>.
\<close>

record user =
  uid :: nat
  name :: "string option"
  email :: "string option"
  photo :: string
  role :: string
  password :: "string option"
  passwordConfirm :: "string option"
  passwordChangedAt :: "int option"
  passwordResetToken :: "string option"
  passwordResetExpires :: "int option"
  active :: bool

type_synonym db = "user list"

subsection \<open>Errors, requests and outcomes\<close>

datatype jwt_error = JsonWebTokenError | TokenExpiredError

text \<open>
  What a handler passes to \<^verbatim>\<open>next(err)\<close>: an \<^verbatim>\<open>AppError\<close> built by the handler
  (message and status code; the status code is absent where the handler gives none), or an
  error thrown by a collaborator and forwarded by \<^verbatim>\<open>catchAsync\<close>.
\<close>

datatype error =
    AppError string "nat option"
  | JwtThrown jwt_error
  | ValidationError
  | DuplicateKeyError
  | CastError
  | BcryptError
  | EmailError

record payload =
  pid :: nat
  iat :: int

text \<open>
  A value of the parsed JSON body: absent, \<^verbatim>\<open>null\<close>, a boolean, a number (whole numbers
  only), a string, or an array or object (not looked into).
\<close>

datatype jsvalue = JUndefined | JNull | JBool bool | JNumber int | JString string | JObject

record body =
  b_name :: jsvalue
  b_email :: jsvalue
  b_password :: jsvalue
  b_passwordConfirm :: jsvalue

record request =
  protocol :: string
  host :: string
  authorization :: "string option"
  cookies_jwt :: "string option"
  req_body :: body
  params_token :: string

text \<open>
  The body of a JSON response: \<^verbatim>\<open>{status, token, data: {user}}\<close> of
  \<^verbatim>\<open>createSendToken\<close>, or \<^verbatim>\<open>{status, message}\<close>.
\<close>

datatype json = TokenBody string user | MessageBody string

record response =
  statusCode :: nat
  set_cookie_jwt :: "string option"
  json_body :: json

text \<open>
  A handler ends in one of three ways: \<^verbatim>\<open>next()\<close>, with what it attached to
  \<^verbatim>\<open>req.user\<close> and \<^verbatim>\<open>res.locals.user\<close>; \<^verbatim>\<open>next(err)\<close>; or a response sent.
\<close>

datatype outcome =
    Next "user option" "user option"
  | NextErr error
  | Sent response

subsection \<open>Collaborators\<close>

text \<open>
  The libraries and services the code calls, as parameters: \<^verbatim>\<open>validator.isEmail\<close>,
  \<^verbatim>\<open>String.prototype.toLowerCase\<close> (the schema's \<^verbatim>\<open>lowercase\<close> setter),
  \<^verbatim>\<open>Number.prototype.toString\<close>,
  \<^verbatim>\<open>bcrypt.hash(p, 12)\<close> and \<^verbatim>\<open>bcrypt.compare\<close>, SHA-256 rendered in hex,
  \<^verbatim>\<open>jwt.sign\<close> and \<^verbatim>\<open>jwt.verify\<close> under the process secret, the bytes drawn by
  \<^verbatim>\<open>crypto.randomBytes\<close>, and the two sends of the \<^verbatim>\<open>Email\<close> class
  (\<open>True\<close>: the promise resolves, \<open>False\<close>: it rejects).
\<close>

record env =
  isEmail :: "string \<Rightarrow> bool"
  toLowerCase :: "string \<Rightarrow> string"
  number_toString :: "int \<Rightarrow> string"
  bcrypt_hash :: "string \<Rightarrow> string"
  bcrypt_compare :: "string \<Rightarrow> string \<Rightarrow> bool"
  sha256_hex :: "string \<Rightarrow> string"
  jwt_sign :: "nat \<Rightarrow> string"
  jwt_verify :: "string \<Rightarrow> jwt_error + payload"
  randomByte :: "nat \<Rightarrow> 8 word"
  sendWelcome :: "user \<Rightarrow> string \<Rightarrow> bool"
  sendPasswordReset :: "user \<Rightarrow> string \<Rightarrow> bool"

subsection \<open>JavaScript helpers\<close>

text \<open>\<^verbatim>\<open>!v\<close> for a value that is a string or \<^verbatim>\<open>undefined\<close>.\<close>

definition falsy :: "string option \<Rightarrow> bool" where
  "falsy v = (case v of None \<Rightarrow> True | Some s \<Rightarrow> s = [])"

text \<open>\<^verbatim>\<open>!v\<close> for a value of the JSON body.\<close>

definition falsy_js :: "jsvalue \<Rightarrow> bool" where
  "falsy_js v =
     (case v of
        JUndefined \<Rightarrow> True
      | JNull \<Rightarrow> True
      | JBool b \<Rightarrow> \<not> b
      | JNumber n \<Rightarrow> n = 0
      | JString s \<Rightarrow> s = []
      | JObject \<Rightarrow> False)"

text \<open>\<^verbatim>\<open>s.startsWith(p)\<close>.\<close>

definition startsWith :: "string \<Rightarrow> string \<Rightarrow> bool" where
  "startsWith s p = (take (length p) s = p)"

text \<open>\<^verbatim>\<open>s.split(' ')\<close>: the pieces between single spaces; never empty.\<close>

fun split_space :: "string \<Rightarrow> string list" where
  "split_space [] = [[]]"
| "split_space (c # cs) =
     (if c = CHR '' '' then [] # split_space cs
      else (case split_space cs of
              [] \<Rightarrow> [[c]]
            | w # ws \<Rightarrow> (c # w) # ws))"

text \<open>\<^verbatim>\<open>xs[1]\<close>, \<^verbatim>\<open>undefined\<close> when the array is shorter.\<close>

definition index1 :: "'a list \<Rightarrow> 'a option" where
  "index1 xs = (case xs of _ # y # _ \<Rightarrow> Some y | _ \<Rightarrow> None)"

text \<open>
  \<^verbatim>\<open>parseInt(ms / 1000, 10)\<close> for a whole number of milliseconds: the quotient
  truncated towards zero (the number is printed in decimal and its integer prefix is read;
  in the range of \<^verbatim>\<open>Date\<close> the floating-point quotient has the exact integer part).
\<close>

definition parseInt_seconds :: "int \<Rightarrow> int" where
  "parseInt_seconds ms = (if 0 \<le> ms then ms div 1000 else - ((- ms) div 1000))"

text \<open>\<^verbatim>\<open>buf.toString('hex')\<close>: two lower-case hexadecimal digits for each byte.\<close>

definition hex_digit :: "nat \<Rightarrow> char" where
  "hex_digit n = ''0123456789abcdef'' ! n"

definition hex_byte :: "8 word \<Rightarrow> string" where
  "hex_byte w = [hex_digit (unat w div 16), hex_digit (unat w mod 16)]"

definition toString_hex :: "8 word list \<Rightarrow> string" where
  "toString_hex bs = concat (map hex_byte bs)"

text \<open>\<^verbatim>\<open>crypto.randomBytes(n)\<close>: the first \<open>n\<close> bytes the generator draws.\<close>

definition randomBytes :: "env \<Rightarrow> nat \<Rightarrow> 8 word list" where
  "randomBytes e n = map (randomByte e) [0..<n]"

subsection \<open>The user model\<close>

text \<open>
  The query middleware \<^verbatim>\<open>pre(/^find/)\<close> adds \<^verbatim>\<open>{active: {$ne: false}}\<close> to every
  query whose name starts with \<^verbatim>\<open>find\<close>; \<^verbatim>\<open>findById\<close> runs as \<^verbatim>\<open>findOne\<close>.
\<close>

definition preFind :: "(user \<Rightarrow> bool) \<Rightarrow> user \<Rightarrow> bool" where
  "preFind q u = (q u \<and> active u \<noteq> False)"

text \<open>
  \<^verbatim>\<open>password\<close> is declared \<^verbatim>\<open>select: false\<close>: a query returns the document without
  it unless it asks with \<^verbatim>\<open>.select('+password')\<close>. (\<^verbatim>\<open>active\<close> is declared
  \<^verbatim>\<open>select: false\<close> too; no handler reads it from a document, and a save leaves the
  stored value alone, so the document keeps it here.)
\<close>

definition select_default :: "user \<Rightarrow> user" where
  "select_default u = u\<lparr>password := None\<rparr>"

definition findOne_select_password :: "db \<Rightarrow> (user \<Rightarrow> bool) \<Rightarrow> user option" where
  "findOne_select_password d q = find (preFind q) d"

definition findOne :: "db \<Rightarrow> (user \<Rightarrow> bool) \<Rightarrow> user option" where
  "findOne d q = map_option select_default (find (preFind q) d)"

definition findById :: "db \<Rightarrow> nat \<Rightarrow> user option" where
  "findById d i = findOne d (\<lambda>u. uid u = i)"

text \<open>
  The cast of a value to the schema type \<^verbatim>\<open>String\<close>: \<^verbatim>\<open>null\<close> and
  \<^verbatim>\<open>undefined\<close> stay absent, a string is kept, a number or boolean is printed with its
  \<^verbatim>\<open>toString()\<close>, an array or object is a cast error.
\<close>

definition castString :: "env \<Rightarrow> jsvalue \<Rightarrow> error + string option" where
  "castString e v =
     (case v of
        JUndefined \<Rightarrow> Inr None
      | JNull \<Rightarrow> Inr None
      | JBool b \<Rightarrow> Inr (Some (if b then ''true'' else ''false''))
      | JNumber n \<Rightarrow> Inr (Some (number_toString e n))
      | JString s \<Rightarrow> Inr (Some s)
      | JObject \<Rightarrow> Inl CastError)"

text \<open>
  Setting a path of a document: the value is cast, and a value that cannot be cast leaves
  the path unset (the validation of the save then fails on the path: every path that the
  handlers set from the body is required).
\<close>

definition cast_path :: "env \<Rightarrow> jsvalue \<Rightarrow> string option" where
  "cast_path e v = (case castString e v of Inl err \<Rightarrow> None | Inr s \<Rightarrow> s)"

text \<open>
  \<^verbatim>\<open>User.findOne({email})\<close> for an email already cast to a string: the filter goes
  through the \<^verbatim>\<open>lowercase\<close> setter of the schema before it is compared.
\<close>

definition email_filter :: "env \<Rightarrow> string option \<Rightarrow> user \<Rightarrow> bool" where
  "email_filter e s u = (email u = map_option (toLowerCase e) s)"

definition findOne_email :: "env \<Rightarrow> db \<Rightarrow> string option \<Rightarrow> user option" where
  "findOne_email e d s = findOne d (email_filter e s)"

text \<open>
  \<^verbatim>\<open>User.findOne({passwordResetToken: h, passwordResetExpires: {$gt: now}})\<close>.
\<close>

definition findOne_reset :: "db \<Rightarrow> string \<Rightarrow> int \<Rightarrow> user option" where
  "findOne_reset d h now =
     findOne d (\<lambda>u. passwordResetToken u = Some h \<and>
                     (case passwordResetExpires u of None \<Rightarrow> False | Some x \<Rightarrow> now < x))"

text \<open>
  The validators of the schema, as run by a validating save: \<^verbatim>\<open>required\<close> (a string
  that is present and not empty), \<^verbatim>\<open>validator.isEmail\<close>, the \<^verbatim>\<open>enum\<close> of
  \<^verbatim>\<open>role\<close>, \<^verbatim>\<open>minlength: 8\<close> and the confirmation validator
  \<^verbatim>\<open>el === this.password\<close>.
\<close>

definition required :: "string option \<Rightarrow> bool" where
  "required v = (\<not> falsy v)"

definition role_enum :: "string list" where
  "role_enum = [''user'', ''guide'', ''lead-guide'', ''admin'']"

definition validate :: "env \<Rightarrow> user \<Rightarrow> bool" where
  "validate e u =
     (required (name u) \<and>
      required (email u) \<and> (case email u of None \<Rightarrow> False | Some a \<Rightarrow> isEmail e a) \<and>
      role u \<in> set role_enum \<and>
      required (password u) \<and> (case password u of None \<Rightarrow> False | Some p \<Rightarrow> 8 \<le> length p) \<and>
      required (passwordConfirm u) \<and> passwordConfirm u = password u)"

text \<open>
  First \<^verbatim>\<open>pre('save')\<close> hook: when the password was modified, store its bcrypt hash
  and drop the confirmation. \<^verbatim>\<open>bcrypt.hash\<close> rejects without a string to hash.
\<close>

definition preSave_hash :: "env \<Rightarrow> bool \<Rightarrow> user \<Rightarrow> error + user" where
  "preSave_hash e modifiedPassword u =
     (if \<not> modifiedPassword then Inr u
      else (case password u of
              None \<Rightarrow> Inl BcryptError
            | Some p \<Rightarrow> Inr (u\<lparr>password := Some (bcrypt_hash e p), passwordConfirm := None\<rparr>)))"

text \<open>
  Second \<^verbatim>\<open>pre('save')\<close> hook: when the password of an existing document was
  modified, \<^verbatim>\<open>passwordChangedAt = Date.now() - 1000\<close>.
\<close>

definition preSave_changedAt :: "int \<Rightarrow> bool \<Rightarrow> bool \<Rightarrow> user \<Rightarrow> user" where
  "preSave_changedAt now modifiedPassword isNew u =
     (if \<not> modifiedPassword \<or> isNew then u
      else u\<lparr>passwordChangedAt := Some (now - 1000)\<rparr>)"

text \<open>
  Writing a document: a new one is inserted (the unique index on \<open>email\<close> refuses a
  duplicate), an existing one replaces the row of its \<open>uid\<close>. Paths that were not loaded
  and not modified stay as stored: \<open>active\<close> always, \<open>password\<close> unless modified.
\<close>

definition write_row :: "bool \<Rightarrow> user \<Rightarrow> user \<Rightarrow> user" where
  "write_row modifiedPassword u r =
     (if uid r = uid u
      then u\<lparr>password := (if modifiedPassword then password u else password r),
             active := active r\<rparr>
      else r)"

definition persist :: "bool \<Rightarrow> bool \<Rightarrow> user \<Rightarrow> db \<Rightarrow> error + db" where
  "persist isNew modifiedPassword u d =
     (if isNew
      then (if list_ex (\<lambda>r. email r = email u) d then Inl DuplicateKeyError
            else Inr (d @ [u]))
      else Inr (map (write_row modifiedPassword u) d))"

text \<open>
  \<^verbatim>\<open>doc.save({validateBeforeSave})\<close>: validation, the two hooks in the order of their
  registration, then the write. The result is the document as the hooks left it and the
  new contents of the collection.
\<close>

definition save :: "env \<Rightarrow> int \<Rightarrow> bool \<Rightarrow> bool \<Rightarrow> bool \<Rightarrow> user \<Rightarrow> db \<Rightarrow> error + (user \<times> db)" where
  "save e now validateBeforeSave isNew modifiedPassword u d =
     (if validateBeforeSave \<and> \<not> validate e u then Inl ValidationError
      else (case preSave_hash e modifiedPassword u of
              Inl err \<Rightarrow> Inl err
            | Inr u1 \<Rightarrow>
                (let u2 = preSave_changedAt now modifiedPassword isNew u1
                 in (case persist isNew modifiedPassword u2 d of
                       Inl err \<Rightarrow> Inl err
                     | Inr d' \<Rightarrow> Inr (u2, d')))))"

text \<open>
  \<^verbatim>\<open>User.create({name, email, password, passwordConfirm})\<close>: a new document with the
  schema's defaults and the lower-cased email, saved with validation. The identifier is the
  one the driver generates.
\<close>

definition new_user :: "env \<Rightarrow> nat \<Rightarrow> body \<Rightarrow> user" where
  "new_user e newId b =
     \<lparr>uid = newId, name = cast_path e (b_name b),
      email = map_option (toLowerCase e) (cast_path e (b_email b)),
      photo = ''default.jpg'', role = ''user'',
      password = cast_path e (b_password b),
      passwordConfirm = cast_path e (b_passwordConfirm b),
      passwordChangedAt = None, passwordResetToken = None, passwordResetExpires = None,
      active = True\<rparr>"

definition User_create :: "env \<Rightarrow> int \<Rightarrow> nat \<Rightarrow> body \<Rightarrow> db \<Rightarrow> error + (user \<times> db)" where
  "User_create e now newId b d =
     save e now True True (cast_path e (b_password b) \<noteq> None) (new_user e newId b) d"

text \<open>\<^verbatim>\<open>user.isCorrectPassword(candidate, userPassword)\<close>.\<close>

definition isCorrectPassword :: "env \<Rightarrow> string \<Rightarrow> string \<Rightarrow> bool" where
  "isCorrectPassword e candidatePassword userPassword =
     bcrypt_compare e candidatePassword userPassword"

text \<open>\<^verbatim>\<open>user.hasPasswordChangedAfter(JWTTimestamp)\<close>.\<close>

definition hasPasswordChangedAfter :: "user \<Rightarrow> int \<Rightarrow> bool" where
  "hasPasswordChangedAfter u JWTTimestamp =
     (case passwordChangedAt u of
        Some t \<Rightarrow> JWTTimestamp < parseInt_seconds t
      | None \<Rightarrow> False)"

text \<open>
  \<^verbatim>\<open>user.createPasswordResetToken()\<close>: returns the secret and the document with the
  digest and the expiry set.
\<close>

definition createPasswordResetToken :: "env \<Rightarrow> int \<Rightarrow> user \<Rightarrow> string \<times> user" where
  "createPasswordResetToken e now u =
     (let resetToken = toString_hex (randomBytes e 32)
      in (resetToken,
          u\<lparr>passwordResetToken := Some (sha256_hex e resetToken),
            passwordResetExpires := Some (now + 10 * 60 * 1000)\<rparr>))"

subsection \<open>The authentication controller\<close>

definition signToken :: "env \<Rightarrow> nat \<Rightarrow> string" where
  "signToken e i = jwt_sign e i"

text \<open>
  \<^verbatim>\<open>createSendToken(user, statusCode, res)\<close>: the token goes into the \<^verbatim>\<open>jwt\<close> cookie
  and into the body, next to the user without its password.
\<close>

definition createSendToken :: "env \<Rightarrow> user \<Rightarrow> nat \<Rightarrow> outcome" where
  "createSendToken e u code =
     (let token = signToken e (uid u)
      in Sent \<lparr>statusCode = code, set_cookie_jwt = Some token,
               json_body = TokenBody token (u\<lparr>password := None\<rparr>)\<rparr>)"

text \<open>
  \<^verbatim>\<open>signup\<close>, wrapped in \<^verbatim>\<open>catchAsync\<close>: a rejected promise of the body becomes
  \<^verbatim>\<open>next(err)\<close>.
\<close>

definition signup :: "env \<Rightarrow> int \<Rightarrow> nat \<Rightarrow> request \<Rightarrow> db \<Rightarrow> db \<times> outcome" where
  "signup e now newId req d =
     (case User_create e now newId (req_body req) d of
        Inl err \<Rightarrow> (d, NextErr err)
      | Inr (newUser, d') \<Rightarrow>
          (let url = protocol req @ ''://'' @ host req @ ''/me''
           in if sendWelcome e newUser url
              then (d', createSendToken e newUser 201)
              else (d', NextErr EmailError)))"

text \<open>
  \<^verbatim>\<open>login\<close>. The filter \<^verbatim>\<open>{email}\<close> is cast by the query (a value that cannot be
  cast makes the query throw); \<^verbatim>\<open>bcrypt.compare\<close> rejects with "Illegal arguments"
  unless both of its arguments are strings.
\<close>

definition login :: "env \<Rightarrow> request \<Rightarrow> db \<Rightarrow> outcome" where
  "login e req d =
     (let em = b_email (req_body req); pw = b_password (req_body req)
      in if falsy_js em \<or> falsy_js pw
         then NextErr (AppError ''Please provide an email and password'' None)
         else (case castString e em of
                 Inl err \<Rightarrow> NextErr err
               | Inr s \<Rightarrow>
                   (case findOne_select_password d (email_filter e s) of
                      None \<Rightarrow> NextErr (AppError ''Incorrect email or password.'' (Some 401))
                    | Some u \<Rightarrow>
                        (case (pw, password u) of
                           (JString candidate, Some hashed) \<Rightarrow>
                             if \<not> isCorrectPassword e candidate hashed
                             then NextErr (AppError ''Incorrect email or password.'' (Some 401))
                             else createSendToken e u 200
                         | _ \<Rightarrow> NextErr BcryptError))))"

text \<open>
  Step 1 of \<^verbatim>\<open>protect\<close>: the token is the second piece of a header that starts with
  \<^verbatim>\<open>Bearer\<close>; the cookie is read only when there is no such header.
\<close>

definition protect_token :: "request \<Rightarrow> string option" where
  "protect_token req =
     (case authorization req of
        Some a \<Rightarrow>
          if a \<noteq> [] \<and> startsWith a ''Bearer'' then index1 (split_space a)
          else if \<not> falsy (cookies_jwt req) then cookies_jwt req
          else None
      | None \<Rightarrow> if \<not> falsy (cookies_jwt req) then cookies_jwt req else None)"

definition protect :: "env \<Rightarrow> request \<Rightarrow> db \<Rightarrow> outcome" where
  "protect e req d =
     (case protect_token req of
        None \<Rightarrow> NextErr (AppError ''User not logged in! Please log in to get access.'' (Some 401))
      | Some token \<Rightarrow>
          if token = []
          then NextErr (AppError ''User not logged in! Please log in to get access.'' (Some 401))
          else (case jwt_verify e token of
                  Inl err \<Rightarrow> NextErr (JwtThrown err)
                | Inr payloadDecoded \<Rightarrow>
                    (case findById d (pid payloadDecoded) of
                       None \<Rightarrow>
                         NextErr (AppError ''The user belonging to this token does not longer exist''
                                    (Some 401))
                     | Some u \<Rightarrow>
                         if hasPasswordChangedAfter u (iat payloadDecoded)
                         then NextErr (AppError ''User recenlty changed password. Please log in again.''
                                         (Some 401))
                         else Next (Some u) (Some u))))"

text \<open>
  \<^verbatim>\<open>isLoggedIn\<close>: reads the cookie only, catches what the verification throws, and
  sets \<^verbatim>\<open>res.locals.user\<close> alone.
\<close>

definition isLoggedIn :: "env \<Rightarrow> request \<Rightarrow> db \<Rightarrow> outcome" where
  "isLoggedIn e req d =
     (case cookies_jwt req of
        None \<Rightarrow> Next None None
      | Some c \<Rightarrow>
          if c = [] then Next None None
          else (case jwt_verify e c of
                  Inl err \<Rightarrow> Next None None
                | Inr payloadDecoded \<Rightarrow>
                    (case findById d (pid payloadDecoded) of
                       None \<Rightarrow> Next None None
                     | Some u \<Rightarrow>
                         if hasPasswordChangedAfter u (iat payloadDecoded)
                         then Next None None
                         else Next None (Some u))))"

definition clear_reset :: "user \<Rightarrow> user" where
  "clear_reset u = u\<lparr>passwordResetToken := None, passwordResetExpires := None\<rparr>"

definition forgotPassword :: "env \<Rightarrow> int \<Rightarrow> request \<Rightarrow> db \<Rightarrow> db \<times> outcome" where
  "forgotPassword e now req d =
     (case castString e (b_email (req_body req)) of
        Inl err \<Rightarrow> (d, NextErr err)
      | Inr s \<Rightarrow>
     (case findOne_email e d s of
        None \<Rightarrow> (d, NextErr (AppError ''There is no user with the provided email address.''
                               (Some 404)))
      | Some u \<Rightarrow>
          (case createPasswordResetToken e now u of
             (resetToken, u1) \<Rightarrow>
               (case save e now False False False u1 d of
                  Inl err \<Rightarrow> (d, NextErr err)
                | Inr (u2, d1) \<Rightarrow>
                    (let resetURL = protocol req @ ''://'' @ host req @
                                    ''/api/v1/users/resetPassword/'' @ resetToken
                     in if sendPasswordReset e u2 resetURL
                        then (d1, Sent \<lparr>statusCode = 200, set_cookie_jwt = None,
                                        json_body = MessageBody ''Token sent to user email.''\<rparr>)
                        else (case save e now False False False (clear_reset u2) d1 of
                                Inl err \<Rightarrow> (d1, NextErr err)
                              | Inr (u3, d2) \<Rightarrow>
                                  (d2, NextErr (AppError
                                     ''There was an error sending the email. Try again later.''
                                     (Some 500)))))))))"

text \<open>
  \<^verbatim>\<open>resetPassword\<close>: \<open>now\<close> is the clock at the query, \<open>now'\<close> the clock when the save
  hook runs. The password counts as modified when the body carries one.
\<close>

definition resetPassword :: "env \<Rightarrow> int \<Rightarrow> int \<Rightarrow> request \<Rightarrow> db \<Rightarrow> db \<times> outcome" where
  "resetPassword e now now' req d =
     (let hashedToken = sha256_hex e (params_token req)
      in (case findOne_reset d hashedToken now of
            None \<Rightarrow> (d, NextErr (AppError ''Token is invalid or has expired.'' (Some 400)))
          | Some u \<Rightarrow>
              (let u1 = u\<lparr>password := cast_path e (b_password (req_body req)),
                         passwordConfirm := cast_path e (b_passwordConfirm (req_body req)),
                         passwordResetToken := None,
                         passwordResetExpires := None\<rparr>
               in (case save e now' True False
                          (cast_path e (b_password (req_body req)) \<noteq> None) u1 d of
                     Inl err \<Rightarrow> (d, NextErr err)
                   | Inr (u2, d') \<Rightarrow> (d', createSendToken e u2 200)))))"

subsection \<open>Reading an outcome\<close>

text \<open>The token a response delivers to the client, if any.\<close>

definition delivered_token :: "outcome \<Rightarrow> string option" where
  "delivered_token out =
     (case out of
        Sent r \<Rightarrow> (case json_body r of TokenBody t u \<Rightarrow> Some t | MessageBody m \<Rightarrow> None)
      | _ \<Rightarrow> None)"

text \<open>
  Modelled from the spec: the global error handler (\<^verbatim>\<open>controllers/errorController.js\<close>)
  that turns what reaches \<^verbatim>\<open>next(err)\<close> into a response is not among the sources. The
  specification reports the failures of the Auth Gate, those of token verification
  included, with the kind NotAuthenticated (401); an \<^verbatim>\<open>AppError\<close> carries its own
  status code.
\<close>

definition notAuthenticated :: "error \<Rightarrow> bool" where
  "notAuthenticated err =
     (case err of
        AppError m c \<Rightarrow> c = Some 401
      | JwtThrown j \<Rightarrow> True
      | _ \<Rightarrow> False)"

subsection \<open>A small installation\<close>

text \<open>
  One concrete choice of collaborators and one collection of four users, used to run the
  handlers: the second user changed the password at 100500 ms, the third is deactivated,
  the fourth changed the password at 101000 ms. Every token carries \<open>iat = 100\<close>.
\<close>

text \<open>Lower-casing of the unaccented Latin letters; every other character is kept.\<close>

definition ascii_lower :: "char \<Rightarrow> char" where
  "ascii_lower c =
     (case map_of (zip ''ABCDEFGHIJKLMNOPQRSTUVWXYZ'' ''abcdefghijklmnopqrstuvwxyz'') c of
        Some l \<Rightarrow> l
      | None \<Rightarrow> c)"

text \<open>Decimal printing of a whole number.\<close>

fun decimal_nat :: "nat \<Rightarrow> string" where
  "decimal_nat n =
     (if n < 10 then [''0123456789'' ! n]
      else decimal_nat (n div 10) @ [''0123456789'' ! (n mod 10)])"

declare decimal_nat.simps [simp del]

definition decimal :: "int \<Rightarrow> string" where
  "decimal i = (if i < 0 then CHR ''-'' # decimal_nat (nat (- i)) else decimal_nat (nat i))"

definition env0 :: env where
  "env0 =
     \<lparr>isEmail = (\<lambda>s. CHR ''@'' \<in> set s),
      toLowerCase = map ascii_lower,
      number_toString = decimal,
      bcrypt_hash = (\<lambda>p. ''$2a$12$'' @ p),
      bcrypt_compare = (\<lambda>p h. h = ''$2a$12$'' @ p),
      sha256_hex = (\<lambda>s. ''sha256:'' @ s),
      jwt_sign = (\<lambda>i. if i = 1 then ''t1'' else if i = 2 then ''t2''
                      else if i = 3 then ''t3'' else ''t4''),
      jwt_verify = (\<lambda>t. if t = ''t1'' then Inr \<lparr>pid = 1, iat = 100\<rparr>
                         else if t = ''t2'' then Inr \<lparr>pid = 2, iat = 100\<rparr>
                         else if t = ''t3'' then Inr \<lparr>pid = 3, iat = 100\<rparr>
                         else if t = ''t4'' then Inr \<lparr>pid = 4, iat = 100\<rparr>
                         else if t = ''old'' then Inl TokenExpiredError
                         else Inl JsonWebTokenError),
      randomByte = (\<lambda>i. of_nat (8 * i + 3)),
      sendWelcome = (\<lambda>u url. True),
      sendPasswordReset = (\<lambda>u url. True)\<rparr>"

text \<open>The same installation with a mail service that is down.\<close>

definition env_nomail :: env where
  "env_nomail = env0\<lparr>sendWelcome := (\<lambda>u url. False), sendPasswordReset := (\<lambda>u url. False)\<rparr>"

definition mk_user :: "nat \<Rightarrow> string \<Rightarrow> string \<Rightarrow> int option \<Rightarrow> bool \<Rightarrow> user" where
  "mk_user i n pw changed act =
     \<lparr>uid = i, name = Some n, email = Some (n @ ''@x.com''),
      photo = ''default.jpg'', role = ''user'',
      password = Some (''$2a$12$'' @ pw), passwordConfirm = None,
      passwordChangedAt = changed, passwordResetToken = None, passwordResetExpires = None,
      active = act\<rparr>"

definition db0 :: db where
  "db0 = [mk_user 1 ''ana'' ''longpass1'' None True,
          mk_user 2 ''bob'' ''longpass2'' (Some 100500) True,
          mk_user 3 ''cy'' ''longpass3'' None False,
          mk_user 4 ''dan'' ''longpass4'' (Some 101000) True]"

definition mk_request :: "string option \<Rightarrow> string option \<Rightarrow> body \<Rightarrow> string \<Rightarrow> request" where
  "mk_request auth cookie b tok =
     \<lparr>protocol = ''https'', host = ''h'', authorization = auth, cookies_jwt = cookie,
      req_body = b, params_token = tok\<rparr>"

definition js :: "string option \<Rightarrow> jsvalue" where
  "js v = (case v of None \<Rightarrow> JUndefined | Some s \<Rightarrow> JString s)"

definition mk_body :: "string option \<Rightarrow> string option \<Rightarrow> string option \<Rightarrow> string option \<Rightarrow> body" where
  "mk_body n em pw pc =
     \<lparr>b_name = js n, b_email = js em, b_password = js pw, b_passwordConfirm = js pc\<rparr>"

definition no_body :: body where
  "no_body = mk_body None None None None"

section \<open>Properties\<close>

subsection \<open>Lists and lookups\<close>

lemma find_Some_props: "find P xs = Some x \<Longrightarrow> P x \<and> x \<in> set xs"
  by (induction xs) (auto split: if_splits)

lemma find_only:
  assumes "x \<in> set xs" and "P x" and "\<And>y. y \<in> set xs \<Longrightarrow> P y \<Longrightarrow> y = x"
  shows "find P xs = Some x"
proof -
  have "find P xs \<noteq> None"
    using assms(1,2) by (simp add: find_None_iff) blast
  then obtain y where y: "find P xs = Some y"
    by blast
  then have "P y \<and> y \<in> set xs"
    by (rule find_Some_props)
  then have "y = x"
    using assms(3) by blast
  then show ?thesis using y by simp
qed

lemma distinct_map_eq:
  "distinct (map f xs) \<Longrightarrow> x \<in> set xs \<Longrightarrow> y \<in> set xs \<Longrightarrow> f x = f y \<Longrightarrow> x = y"
  by (simp add: distinct_map inj_on_def)

lemma findOne_select_password_active:
  "findOne_select_password d q = Some u \<Longrightarrow> active u \<and> q u \<and> u \<in> set d"
  using find_Some_props [of "preFind q" d u]
  by (simp add: findOne_select_password_def preFind_def)

lemma findOne_active:
  "findOne d q = Some u \<Longrightarrow> active u \<and> (\<exists>r\<in>set d. u = select_default r \<and> q r \<and> active r)"
  using find_Some_props [of "preFind q" d]
  by (auto simp: findOne_def preFind_def select_default_def)

lemma findOne_select_password_None:
  "(\<forall>r\<in>set d. q r \<longrightarrow> \<not> active r) \<Longrightarrow> findOne_select_password d q = None"
  by (auto simp: findOne_select_password_def find_None_iff preFind_def)

lemma findOne_None:
  "(\<forall>r\<in>set d. q r \<longrightarrow> \<not> active r) \<Longrightarrow> findOne d q = None"
  by (auto simp: findOne_def find_None_iff preFind_def)

text \<open>A lookup by a key that is unique in the collection returns the active row that has it.\<close>

lemma find_by_unique_key:
  assumes "distinct (map f d)" and "x \<in> set d" and "active x"
  shows "find (preFind (\<lambda>u. f u = f x)) d = Some x"
proof (rule find_only)
  show "x \<in> set d" by (rule assms(2))
  show "preFind (\<lambda>u. f u = f x) x" using assms(3) by (simp add: preFind_def)
  show "y = x" if "y \<in> set d" and "preFind (\<lambda>u. f u = f x) y" for y
    using distinct_map_eq [OF assms(1) that(1) assms(2)] that(2) by (simp add: preFind_def)
qed

lemma findById_unique:
  assumes "distinct (map uid d)" and "x \<in> set d" and "active x"
  shows "findById d (uid x) = Some (select_default x)"
  using find_by_unique_key [OF assms] by (simp add: findById_def findOne_def)

lemma findById_none:
  "(\<forall>r\<in>set d. uid r = i \<longrightarrow> \<not> active r) \<Longrightarrow> findById d i = None"
  unfolding findById_def by (rule findOne_None)

subsection \<open>Token extraction\<close>

lemma split_space_no_space:
  "CHR '' '' \<notin> set t \<Longrightarrow> split_space t = [t]"
  by (induction t) auto

lemma split_space_at_space:
  "CHR '' '' \<notin> set x \<Longrightarrow> split_space (x @ CHR '' '' # y) = x # split_space y"
  by (induction x) auto

lemma startsWith_iff: "startsWith a p = (\<exists>rest. a = p @ rest)"
proof
  assume "startsWith a p"
  then have "a = p @ drop (length p) a"
    unfolding startsWith_def by (metis append_take_drop_id)
  then show "\<exists>rest. a = p @ rest" ..
next
  assume "\<exists>rest. a = p @ rest"
  then show "startsWith a p"
    by (auto simp: startsWith_def)
qed

lemma startsWith_Bearer: "startsWith (''Bearer'' @ x) ''Bearer''"
  unfolding startsWith_iff by blast

lemma Bearer_no_space: "CHR '' '' \<notin> set x \<Longrightarrow> CHR '' '' \<notin> set (''Bearer'' @ x)"
  by simp

lemma protect_token_bearer_last:
  assumes "authorization req = Some (''Bearer'' @ x @ '' '' @ t)"
    and "CHR '' '' \<notin> set x" and "CHR '' '' \<notin> set t"
  shows "protect_token req = Some t"
proof -
  have "split_space ((''Bearer'' @ x) @ CHR '' '' # t) = (''Bearer'' @ x) # split_space t"
    using assms(2) by (intro split_space_at_space Bearer_no_space)
  then have "index1 (split_space (''Bearer'' @ x @ '' '' @ t)) = Some t"
    using assms(3) by (simp add: index1_def split_space_no_space)
  then show ?thesis
    using assms(1) startsWith_Bearer [of "x @ '' '' @ t"] by (simp add: protect_token_def)
qed

lemma protect_token_bearer_second:
  assumes "authorization req = Some (''Bearer'' @ x @ '' '' @ t @ '' '' @ rest)"
    and "CHR '' '' \<notin> set x" and "CHR '' '' \<notin> set t"
  shows "protect_token req = Some t"
proof -
  have "split_space ((''Bearer'' @ x) @ CHR '' '' # (t @ CHR '' '' # rest)) =
          (''Bearer'' @ x) # split_space (t @ CHR '' '' # rest)"
    using assms(2) by (intro split_space_at_space Bearer_no_space)
  moreover have "split_space (t @ CHR '' '' # rest) = t # split_space rest"
    using assms(3) by (rule split_space_at_space)
  ultimately have "index1 (split_space (''Bearer'' @ x @ '' '' @ t @ '' '' @ rest)) = Some t"
    by (simp add: index1_def)
  then show ?thesis
    using assms(1) startsWith_Bearer [of "x @ '' '' @ t @ '' '' @ rest"]
    by (simp add: protect_token_def)
qed

lemma protect_token_bearer_alone:
  assumes "authorization req = Some (''Bearer'' @ x)" and "CHR '' '' \<notin> set x"
  shows "protect_token req = None"
proof -
  have "split_space (''Bearer'' @ x) = [''Bearer'' @ x]"
    using assms(2) by (intro split_space_no_space Bearer_no_space)
  then have "index1 (split_space (''Bearer'' @ x)) = None"
    by (simp add: index1_def)
  then show ?thesis
    using assms(1) startsWith_Bearer [of x] by (simp add: protect_token_def)
qed

lemma protect_token_cookie:
  assumes "authorization req = None \<or>
           (\<exists>a. authorization req = Some a \<and> (\<forall>rest. a \<noteq> ''Bearer'' @ rest))"
  shows "protect_token req = (if falsy (cookies_jwt req) then None else cookies_jwt req)"
proof (cases "authorization req")
  case None
  then show ?thesis by (simp add: protect_token_def)
next
  case (Some a)
  then have "\<not> startsWith a ''Bearer''"
    using assms unfolding startsWith_iff by auto
  then show ?thesis using Some by (simp add: protect_token_def)
qed

subsection \<open>The steps of \<^verbatim>\<open>protect\<close>\<close>

lemma protect_no_token:
  "falsy (protect_token req) \<Longrightarrow>
   protect e req d =
     NextErr (AppError ''User not logged in! Please log in to get access.'' (Some 401))"
  by (auto simp: protect_def falsy_def split: option.splits)

lemma protect_verify_fails:
  "protect_token req = Some t \<Longrightarrow> t \<noteq> [] \<Longrightarrow> jwt_verify e t = Inl j \<Longrightarrow>
   protect e req d = NextErr (JwtThrown j)"
  by (simp add: protect_def)

lemma protect_no_user:
  "protect_token req = Some t \<Longrightarrow> t \<noteq> [] \<Longrightarrow> jwt_verify e t = Inr p \<Longrightarrow>
   findById d (pid p) = None \<Longrightarrow>
   protect e req d =
     NextErr (AppError ''The user belonging to this token does not longer exist'' (Some 401))"
  by (simp add: protect_def)

lemma protect_changed:
  "protect_token req = Some t \<Longrightarrow> t \<noteq> [] \<Longrightarrow> jwt_verify e t = Inr p \<Longrightarrow>
   findById d (pid p) = Some u \<Longrightarrow> hasPasswordChangedAfter u (iat p) \<Longrightarrow>
   protect e req d =
     NextErr (AppError ''User recenlty changed password. Please log in again.'' (Some 401))"
  by (simp add: protect_def)

lemma protect_granted:
  "protect_token req = Some t \<Longrightarrow> t \<noteq> [] \<Longrightarrow> jwt_verify e t = Inr p \<Longrightarrow>
   findById d (pid p) = Some u \<Longrightarrow> \<not> hasPasswordChangedAfter u (iat p) \<Longrightarrow>
   protect e req d = Next (Some u) (Some u)"
  by (simp add: protect_def)

lemma protect_err_401: "protect e req d = NextErr err \<Longrightarrow> notAuthenticated err"
  by (auto simp: protect_def notAuthenticated_def split: option.splits if_splits sum.splits)

lemma protect_next_only:
  "protect e req d = Next a b \<Longrightarrow>
   \<exists>t p u. protect_token req = Some t \<and> t \<noteq> [] \<and> jwt_verify e t = Inr p \<and>
     findById d (pid p) = Some u \<and> \<not> hasPasswordChangedAfter u (iat p) \<and>
     a = Some u \<and> b = Some u"
  by (auto simp: protect_def split: option.splits if_splits sum.splits)

lemma protect_never_sends: "protect e req d \<noteq> Sent r"
  by (auto simp: protect_def split: option.splits if_splits sum.splits)

subsection \<open>The password-changed check in whole seconds\<close>

lemma parseInt_seconds_ge:
  "(T + 1) * 1000 \<le> c \<Longrightarrow> T < parseInt_seconds c"
  by (auto simp: parseInt_seconds_def)

lemma parseInt_seconds_nonneg:
  "0 \<le> c \<Longrightarrow> (T < parseInt_seconds c) = ((T + 1) * 1000 \<le> c)"
  by (auto simp: parseInt_seconds_def)

lemma parseInt_seconds_lt:
  "T < parseInt_seconds c \<Longrightarrow> T * 1000 < c"
  by (auto simp: parseInt_seconds_def split: if_splits)

lemma changed_after_whole_second:
  "passwordChangedAt u = Some c \<Longrightarrow> (T + 1) * 1000 \<le> c \<Longrightarrow> hasPasswordChangedAfter u T"
  using parseInt_seconds_ge [of T c] by (simp add: hasPasswordChangedAfter_def)

lemma not_changed_same_second:
  "passwordChangedAt u = None \<or> (\<exists>c. passwordChangedAt u = Some c \<and> 0 \<le> c \<and> c < (T + 1) * 1000)
   \<Longrightarrow> \<not> hasPasswordChangedAfter u T"
  using parseInt_seconds_nonneg [of _ T] by (auto simp: hasPasswordChangedAfter_def)

lemma not_changed_only_later:
  assumes "\<not> hasPasswordChangedAfter u T" and "passwordChangedAt u = Some c"
  shows "c < (T + 1) * 1000"
proof (rule ccontr)
  assume "\<not> c < (T + 1) * 1000"
  then have "(T + 1) * 1000 \<le> c" by simp
  then have "hasPasswordChangedAfter u T"
    using assms(2) by (intro changed_after_whole_second)
  then show False using assms(1) by simp
qed

lemma changedAt_select_default: "passwordChangedAt (select_default x) = passwordChangedAt x"
  by (simp add: select_default_def)

lemma protect_found:
  assumes "protect_token req = Some t" and "t \<noteq> []" and "jwt_verify e t = Inr p"
    and "distinct (map uid d)" and "x \<in> set d" and "active x" and "uid x = pid p"
  shows "(\<forall>c. passwordChangedAt x = Some c \<and> (iat p + 1) * 1000 \<le> c \<longrightarrow>
            protect e req d =
              NextErr (AppError ''User recenlty changed password. Please log in again.''
                         (Some 401))) \<and>
         (passwordChangedAt x = None \<or>
          (\<exists>c. passwordChangedAt x = Some c \<and> 0 \<le> c \<and> c < (iat p + 1) * 1000) \<longrightarrow>
            protect e req d = Next (Some (select_default x)) (Some (select_default x)))"
proof -
  have f: "findById d (pid p) = Some (select_default x)"
    using findById_unique [OF assms(4,5,6)] assms(7) by simp
  have 1: "protect e req d =
      NextErr (AppError ''User recenlty changed password. Please log in again.'' (Some 401))"
    if "passwordChangedAt x = Some c" and "(iat p + 1) * 1000 \<le> c" for c
    using protect_changed [OF assms(1,2,3) f]
      changed_after_whole_second [of "select_default x" c "iat p"] that
    by (simp add: changedAt_select_default)
  have 2: "protect e req d = Next (Some (select_default x)) (Some (select_default x))"
    if "passwordChangedAt x = None \<or>
        (\<exists>c. passwordChangedAt x = Some c \<and> 0 \<le> c \<and> c < (iat p + 1) * 1000)"
    using protect_granted [OF assms(1,2,3) f]
      not_changed_same_second [of "select_default x" "iat p"] that
    by (simp add: changedAt_select_default)
  show ?thesis using 1 2 by blast
qed

lemma protect_next_rows:
  assumes "protect e req d = Next a b"
  shows "\<exists>t p x. protect_token req = Some t \<and> t \<noteq> [] \<and> jwt_verify e t = Inr p \<and>
           x \<in> set d \<and> active x \<and> uid x = pid p \<and>
           (\<forall>c. passwordChangedAt x = Some c \<longrightarrow> c < (iat p + 1) * 1000) \<and>
           a = Some (select_default x) \<and> b = Some (select_default x)"
proof -
  obtain t p u where tp: "protect_token req = Some t" "t \<noteq> []" "jwt_verify e t = Inr p"
    and u: "findById d (pid p) = Some u" "\<not> hasPasswordChangedAfter u (iat p)"
      "a = Some u" "b = Some u"
    using protect_next_only [OF assms] by blast
  obtain x where x: "x \<in> set d" "u = select_default x" "uid x = pid p" "active x"
    using findOne_active [of d "\<lambda>u. uid u = pid p" u] u(1) unfolding findById_def by blast
  have "\<forall>c. passwordChangedAt x = Some c \<longrightarrow> c < (iat p + 1) * 1000"
    using not_changed_only_later [OF u(2)] x(2) by (simp add: changedAt_select_default)
  then show ?thesis using tp x u(3,4) by blast
qed

text \<open>
  C1 (as amended). \<^verbatim>\<open>protect\<close> runs its checks in order. The token is the second
  space-separated piece of an \<^verbatim>\<open>Authorization\<close> header that starts with
  \<^verbatim>\<open>Bearer\<close>; the \<^verbatim>\<open>jwt\<close> cookie is read only when there is no header or the
  header does not start with \<^verbatim>\<open>Bearer\<close>. With no token (or an empty one) the request
  fails with the 401 "not logged in" error, whatever the verifier and the collection hold.
  With a token, a verification failure (bad signature or expired) is the failure of the
  request, whatever the collection holds; then a subject that no active user carries is a
  401; then a password-changed timestamp that is at least one whole second after the
  token's issued-at is a 401, while an absent timestamp, or one (after the epoch) before
  the end of the issued-at second, lets the request pass. Every failure of
  \<^verbatim>\<open>protect\<close> is of the NotAuthenticated kind, and the user is attached (to
  \<^verbatim>\<open>req.user\<close> and \<^verbatim>\<open>res.locals.user\<close>) only when all four checks passed.
\<close>

theorem protect_order:
  "(authorization req = Some (''Bearer'' @ x0 @ '' '' @ t) \<and>
    CHR '' '' \<notin> set x0 \<and> CHR '' '' \<notin> set t \<longrightarrow> protect_token req = Some t) \<and>
   (authorization req = Some (''Bearer'' @ x0 @ '' '' @ t @ '' '' @ rest) \<and>
    CHR '' '' \<notin> set x0 \<and> CHR '' '' \<notin> set t \<longrightarrow> protect_token req = Some t) \<and>
   (authorization req = Some (''Bearer'' @ x0) \<and> CHR '' '' \<notin> set x0 \<longrightarrow>
      protect_token req = None) \<and>
   (authorization req = None \<or>
    (\<exists>a. authorization req = Some a \<and> (\<forall>rest. a \<noteq> ''Bearer'' @ rest)) \<longrightarrow>
      protect_token req = (if falsy (cookies_jwt req) then None else cookies_jwt req)) \<and>
   (falsy (protect_token req) \<longrightarrow>
      protect e req d =
        NextErr (AppError ''User not logged in! Please log in to get access.'' (Some 401))) \<and>
   (protect_token req = Some t \<and> t \<noteq> [] \<and> jwt_verify e t = Inl j \<longrightarrow>
      protect e req d = NextErr (JwtThrown j)) \<and>
   (protect_token req = Some t \<and> t \<noteq> [] \<and> jwt_verify e t = Inr p \<and>
    (\<forall>r\<in>set d. uid r = pid p \<longrightarrow> \<not> active r) \<longrightarrow>
      protect e req d =
        NextErr (AppError ''The user belonging to this token does not longer exist''
                   (Some 401))) \<and>
   (protect_token req = Some t \<and> t \<noteq> [] \<and> jwt_verify e t = Inr p \<and>
    distinct (map uid d) \<and> x \<in> set d \<and> active x \<and> uid x = pid p \<and>
    passwordChangedAt x = Some c \<and> (iat p + 1) * 1000 \<le> c \<longrightarrow>
      protect e req d =
        NextErr (AppError ''User recenlty changed password. Please log in again.''
                   (Some 401))) \<and>
   (protect_token req = Some t \<and> t \<noteq> [] \<and> jwt_verify e t = Inr p \<and>
    distinct (map uid d) \<and> x \<in> set d \<and> active x \<and> uid x = pid p \<and>
    (passwordChangedAt x = None \<or>
     (\<exists>c. passwordChangedAt x = Some c \<and> 0 \<le> c \<and> c < (iat p + 1) * 1000)) \<longrightarrow>
      protect e req d = Next (Some (select_default x)) (Some (select_default x))) \<and>
   (\<forall>err. protect e req d = NextErr err \<longrightarrow> notAuthenticated err) \<and>
   (\<forall>a b. protect e req d = Next a b \<longrightarrow>
      (\<exists>t' p' x'. protect_token req = Some t' \<and> t' \<noteq> [] \<and> jwt_verify e t' = Inr p' \<and>
         x' \<in> set d \<and> active x' \<and> uid x' = pid p' \<and>
         (\<forall>c. passwordChangedAt x' = Some c \<longrightarrow> c < (iat p' + 1) * 1000) \<and>
         a = Some (select_default x') \<and> b = Some (select_default x'))) \<and>
   (\<forall>r. protect e req d \<noteq> Sent r)"
proof -
  note e1 = protect_token_bearer_last [of req x0 t]
  note e2 = protect_token_bearer_second [of req x0 t rest]
  note e3 = protect_token_bearer_alone [of req x0]
  note e4 = protect_token_cookie [of req]
  note s1 = protect_no_token [of req e d]
  note s2 = protect_verify_fails [of req t e j d]
  have s3: "protect e req d =
        NextErr (AppError ''The user belonging to this token does not longer exist'' (Some 401))"
    if "protect_token req = Some t" "t \<noteq> []" "jwt_verify e t = Inr p"
      "\<forall>r\<in>set d. uid r = pid p \<longrightarrow> \<not> active r"
    using protect_no_user [OF that(1,2,3) findById_none [OF that(4)]] .
  note s4 = protect_found [of req t e p d x]
  note s5 = protect_err_401 [of e req d]
  note s6 = protect_next_rows [of e req d]
  note s7 = protect_never_sends [of e req d]
  show ?thesis
    apply (intro conjI)
    subgoal using e1 by blast
    subgoal using e2 by blast
    subgoal using e3 by blast
    subgoal using e4 by blast
    subgoal using s1 by blast
    subgoal using s2 by blast
    subgoal using s3 by blast
    subgoal using s4 by blast
    subgoal using s4 by blast
    subgoal using s5 by blast
    subgoal using s6 by blast
    subgoal using s7 by blast
    done
qed

text \<open>The definitions unfolded when a handler is run on the small installation.\<close>

lemmas run_defs = mk_request_def mk_body_def no_body_def js_def mk_user_def db0_def env0_def
  env_nomail_def protect_token_def startsWith_def index1_def falsy_def falsy_js_def
  castString_def cast_path_def email_filter_def ascii_lower_def role_enum_def
  findById_def findOne_def findOne_select_password_def findOne_email_def findOne_reset_def
  preFind_def select_default_def hasPasswordChangedAfter_def parseInt_seconds_def

text \<open>
  C1 as stated fails in its fourth check: a password-changed timestamp of 100500 ms is
  later than the issued-at of 100 s, and the token still passes.
\<close>

theorem protect_order_counterexample:
  "jwt_verify env0 ''t2'' = Inr \<lparr>pid = 2, iat = 100\<rparr> \<and>
   mk_user 2 ''bob'' ''longpass2'' (Some 100500) True \<in> set db0 \<and>
   passwordChangedAt (mk_user 2 ''bob'' ''longpass2'' (Some 100500) True) = Some 100500 \<and>
   (100 :: int) * 1000 < 100500 \<and>
   protect env0 (mk_request (Some ''Bearer t2'') None no_body []) db0 =
     Next (Some (select_default (mk_user 2 ''bob'' ''longpass2'' (Some 100500) True)))
          (Some (select_default (mk_user 2 ''bob'' ''longpass2'' (Some 100500) True)))"
  by (simp add: run_defs protect_def)

theorem protect_order_witness:
  "protect env0 (mk_request None None no_body []) db0 =
     NextErr (AppError ''User not logged in! Please log in to get access.'' (Some 401)) \<and>
   protect env0 (mk_request (Some ''Bearer'') (Some ''t1'') no_body []) db0 =
     NextErr (AppError ''User not logged in! Please log in to get access.'' (Some 401)) \<and>
   protect env0 (mk_request (Some ''Bearer forged'') None no_body []) db0 =
     NextErr (JwtThrown JsonWebTokenError) \<and>
   protect env0 (mk_request None (Some ''old'') no_body []) db0 =
     NextErr (JwtThrown TokenExpiredError) \<and>
   protect env0 (mk_request None (Some ''t3'') no_body []) db0 =
     NextErr (AppError ''The user belonging to this token does not longer exist'' (Some 401)) \<and>
   protect env0 (mk_request None (Some ''t4'') no_body []) db0 =
     NextErr (AppError ''User recenlty changed password. Please log in again.'' (Some 401)) \<and>
   protect env0 (mk_request (Some ''Bearer t1 x'') None no_body []) db0 =
     Next (Some (select_default (mk_user 1 ''ana'' ''longpass1'' None True)))
          (Some (select_default (mk_user 1 ''ana'' ''longpass1'' None True))) \<and>
   protect env0 (mk_request (Some ''Basic abc'') (Some ''t1'') no_body []) db0 =
     Next (Some (select_default (mk_user 1 ''ana'' ''longpass1'' None True)))
          (Some (select_default (mk_user 1 ''ana'' ''longpass1'' None True)))"
proof -
  let ?ana = "mk_user 1 ''ana'' ''longpass1'' None True"
  let ?dan = "mk_user 4 ''dan'' ''longpass4'' (Some 101000) True"
  let ?r1 = "mk_request None None no_body []"
  let ?r2 = "mk_request (Some ''Bearer'') (Some ''t1'') no_body []"
  let ?r3 = "mk_request (Some ''Bearer forged'') None no_body []"
  let ?r4 = "mk_request None (Some ''old'') no_body []"
  let ?r5 = "mk_request None (Some ''t3'') no_body []"
  let ?r6 = "mk_request None (Some ''t4'') no_body []"
  let ?r7 = "mk_request (Some ''Bearer t1 x'') None no_body []"
  let ?r8 = "mk_request (Some ''Basic abc'') (Some ''t1'') no_body []"
  note c2 = conjunct2
  have dist: "distinct (map uid db0)"
    by (simp add: run_defs)

  have "authorization ?r1 = None \<or>
        (\<exists>a. authorization ?r1 = Some a \<and> (\<forall>rest. a \<noteq> ''Bearer'' @ rest))"
    by (simp add: mk_request_def)
  from protect_order [where req = ?r1 and e = env0 and d = db0,
      THEN c2, THEN c2, THEN c2, THEN conjunct1, THEN mp, OF this]
  have "falsy (protect_token ?r1)"
    by (simp add: mk_request_def falsy_def)
  from protect_order [where req = ?r1 and e = env0 and d = db0,
      THEN c2, THEN c2, THEN c2, THEN c2, THEN conjunct1, THEN mp, OF this]
  have a1: "protect env0 ?r1 db0 =
     NextErr (AppError ''User not logged in! Please log in to get access.'' (Some 401))" .

  have "authorization ?r2 = Some (''Bearer'' @ []) \<and> CHR '' '' \<notin> set []"
    by (simp add: mk_request_def)
  from protect_order [where req = ?r2 and ?x0.0 = "[]" and e = env0 and d = db0,
      THEN c2, THEN c2, THEN conjunct1, THEN mp, OF this]
  have "falsy (protect_token ?r2)"
    by (simp add: falsy_def)
  from protect_order [where req = ?r2 and e = env0 and d = db0,
      THEN c2, THEN c2, THEN c2, THEN c2, THEN conjunct1, THEN mp, OF this]
  have a2: "protect env0 ?r2 db0 =
     NextErr (AppError ''User not logged in! Please log in to get access.'' (Some 401))" .

  have "authorization ?r3 = Some (''Bearer'' @ [] @ '' '' @ ''forged'') \<and>
        CHR '' '' \<notin> set [] \<and> CHR '' '' \<notin> set ''forged''"
    by (simp add: mk_request_def)
  from protect_order [where req = ?r3 and ?x0.0 = "[]" and t = "''forged''" and e = env0 and d = db0,
      THEN conjunct1, THEN mp, OF this]
  have "protect_token ?r3 = Some ''forged'' \<and> ''forged'' \<noteq> [] \<and>
        jwt_verify env0 ''forged'' = Inl JsonWebTokenError"
    by (simp add: env0_def)
  from protect_order [where req = ?r3 and t = "''forged''" and j = JsonWebTokenError and e = env0 and d = db0,
      THEN c2, THEN c2, THEN c2, THEN c2, THEN c2, THEN conjunct1, THEN mp, OF this]
  have a3: "protect env0 ?r3 db0 = NextErr (JwtThrown JsonWebTokenError)" .

  have ck: "authorization (mk_request None (Some c) no_body []) = None \<or>
        (\<exists>a. authorization (mk_request None (Some c) no_body []) = Some a \<and>
             (\<forall>rest. a \<noteq> ''Bearer'' @ rest))" for c
    by (simp add: mk_request_def)

  from protect_order [where req = ?r4 and e = env0 and d = db0,
      THEN c2, THEN c2, THEN c2, THEN conjunct1, THEN mp, OF ck]
  have "protect_token ?r4 = Some ''old'' \<and> ''old'' \<noteq> [] \<and>
        jwt_verify env0 ''old'' = Inl TokenExpiredError"
    by (simp add: mk_request_def falsy_def env0_def)
  from protect_order [where req = ?r4 and t = "''old''" and j = TokenExpiredError and e = env0 and d = db0,
      THEN c2, THEN c2, THEN c2, THEN c2, THEN c2, THEN conjunct1, THEN mp, OF this]
  have a4: "protect env0 ?r4 db0 = NextErr (JwtThrown TokenExpiredError)" .

  from protect_order [where req = ?r5 and e = env0 and d = db0,
      THEN c2, THEN c2, THEN c2, THEN conjunct1, THEN mp, OF ck]
  have "protect_token ?r5 = Some ''t3'' \<and> ''t3'' \<noteq> [] \<and>
        jwt_verify env0 ''t3'' = Inr \<lparr>pid = 3, iat = 100\<rparr> \<and>
        (\<forall>r\<in>set db0. uid r = pid \<lparr>pid = 3, iat = 100\<rparr> \<longrightarrow> \<not> active r)"
    by (simp add: run_defs)
  from protect_order [where req = ?r5 and t = "''t3''" and p = "\<lparr>pid = 3, iat = 100\<rparr>" and e = env0 and d = db0,
      THEN c2, THEN c2, THEN c2, THEN c2, THEN c2, THEN c2, THEN conjunct1, THEN mp, OF this]
  have a5: "protect env0 ?r5 db0 =
     NextErr (AppError ''The user belonging to this token does not longer exist'' (Some 401))" .

  from protect_order [where req = ?r6 and e = env0 and d = db0,
      THEN c2, THEN c2, THEN c2, THEN conjunct1, THEN mp, OF ck]
  have "protect_token ?r6 = Some ''t4'' \<and> ''t4'' \<noteq> [] \<and>
        jwt_verify env0 ''t4'' = Inr \<lparr>pid = 4, iat = 100\<rparr> \<and>
        distinct (map uid db0) \<and> ?dan \<in> set db0 \<and> active ?dan \<and>
        uid ?dan = pid \<lparr>pid = 4, iat = 100\<rparr> \<and>
        passwordChangedAt ?dan = Some 101000 \<and> (iat \<lparr>pid = 4, iat = 100\<rparr> + 1) * 1000 \<le> 101000"
    by (simp add: run_defs)
  from protect_order [where req = ?r6 and t = "''t4''" and p = "\<lparr>pid = 4, iat = 100\<rparr>" and x = ?dan
      and c = 101000 and e = env0 and d = db0,
      THEN c2, THEN c2, THEN c2, THEN c2, THEN c2, THEN c2, THEN c2, THEN conjunct1, THEN mp, OF this]
  have a6: "protect env0 ?r6 db0 =
     NextErr (AppError ''User recenlty changed password. Please log in again.'' (Some 401))" .

  have "authorization ?r7 = Some (''Bearer'' @ [] @ '' '' @ ''t1'' @ '' '' @ ''x'') \<and>
        CHR '' '' \<notin> set [] \<and> CHR '' '' \<notin> set ''t1''"
    by (simp add: mk_request_def)
  from protect_order [where req = ?r7 and ?x0.0 = "[]" and t = "''t1''" and rest = "''x''" and e = env0 and d = db0,
      THEN c2, THEN conjunct1, THEN mp, OF this]
  have "protect_token ?r7 = Some ''t1'' \<and> ''t1'' \<noteq> [] \<and>
        jwt_verify env0 ''t1'' = Inr \<lparr>pid = 1, iat = 100\<rparr> \<and>
        distinct (map uid db0) \<and> ?ana \<in> set db0 \<and> active ?ana \<and>
        uid ?ana = pid \<lparr>pid = 1, iat = 100\<rparr> \<and>
        (passwordChangedAt ?ana = None \<or>
         (\<exists>c. passwordChangedAt ?ana = Some c \<and> 0 \<le> c \<and>
              c < (iat \<lparr>pid = 1, iat = 100\<rparr> + 1) * 1000))"
    by (simp add: run_defs)
  from protect_order [where req = ?r7 and t = "''t1''" and p = "\<lparr>pid = 1, iat = 100\<rparr>" and x = ?ana and e = env0 and d = db0,
      THEN c2, THEN c2, THEN c2, THEN c2, THEN c2, THEN c2, THEN c2, THEN c2, THEN conjunct1, THEN mp, OF this]
  have a7: "protect env0 ?r7 db0 =
     Next (Some (select_default ?ana)) (Some (select_default ?ana))" .

  have "authorization ?r8 = None \<or>
        (\<exists>a. authorization ?r8 = Some a \<and> (\<forall>rest. a \<noteq> ''Bearer'' @ rest))"
    by (simp add: mk_request_def)
  from protect_order [where req = ?r8 and e = env0 and d = db0,
      THEN c2, THEN c2, THEN c2, THEN conjunct1, THEN mp, OF this]
  have "protect_token ?r8 = Some ''t1'' \<and> ''t1'' \<noteq> [] \<and>
        jwt_verify env0 ''t1'' = Inr \<lparr>pid = 1, iat = 100\<rparr> \<and>
        distinct (map uid db0) \<and> ?ana \<in> set db0 \<and> active ?ana \<and>
        uid ?ana = pid \<lparr>pid = 1, iat = 100\<rparr> \<and>
        (passwordChangedAt ?ana = None \<or>
         (\<exists>c. passwordChangedAt ?ana = Some c \<and> 0 \<le> c \<and>
              c < (iat \<lparr>pid = 1, iat = 100\<rparr> + 1) * 1000))"
    by (simp add: run_defs)
  from protect_order [where req = ?r8 and t = "''t1''" and p = "\<lparr>pid = 1, iat = 100\<rparr>" and x = ?ana and e = env0 and d = db0,
      THEN c2, THEN c2, THEN c2, THEN c2, THEN c2, THEN c2, THEN c2, THEN c2, THEN conjunct1, THEN mp, OF this]
  have a8: "protect env0 ?r8 db0 =
     Next (Some (select_default ?ana)) (Some (select_default ?ana))" .

  show ?thesis
    using a1 a2 a3 a4 a5 a6 a7 a8 by (intro conjI)
qed

subsection \<open>Signup\<close>

lemma User_create_valid:
  assumes "validate e (new_user e newId b)"
    and "\<not> list_ex (\<lambda>r. email r = email (new_user e newId b)) d"
    and "b_password b = JString p"
  shows "User_create e now newId b d =
           Inr ((new_user e newId b)\<lparr>password := Some (bcrypt_hash e p), passwordConfirm := None\<rparr>,
                d @ [(new_user e newId b)\<lparr>password := Some (bcrypt_hash e p),
                                            passwordConfirm := None\<rparr>])"
proof -
  have pw: "password (new_user e newId b) = Some p"
    using assms(3) by (simp add: new_user_def cast_path_def castString_def)
  have em: "email ((new_user e newId b)\<lparr>password := Some (bcrypt_hash e p), passwordConfirm := None\<rparr>)
              = email (new_user e newId b)"
    by simp
  show ?thesis
    using assms(1,2) assms(3) pw
    by (simp add: User_create_def save_def preSave_hash_def preSave_changedAt_def persist_def
        Let_def cast_path_def castString_def)
qed

text \<open>
  C2 (as amended). For a signup whose fields pass validation and whose email is not taken,
  the identity is inserted with the bcrypt hash of the password before the welcome email is
  sent. When that send fails, the request ends with the send error passed to
  \<^verbatim>\<open>next\<close>: no token is minted and no response is written. When it succeeds, the
  response carries the new token.
\<close>

theorem signup_welcome_failure:
  assumes "validate e (new_user e newId (req_body req))"
    and "\<not> list_ex (\<lambda>r. email r = email (new_user e newId (req_body req))) d"
    and "b_password (req_body req) = JString p"
    and "stored = (new_user e newId (req_body req))\<lparr>password := Some (bcrypt_hash e p),
                                                    passwordConfirm := None\<rparr>"
    and "url = protocol req @ ''://'' @ host req @ ''/me''"
  shows "fst (signup e now newId req d) = d @ [stored] \<and>
         (\<not> sendWelcome e stored url \<longrightarrow>
            snd (signup e now newId req d) = NextErr EmailError \<and>
            delivered_token (snd (signup e now newId req d)) = None) \<and>
         (sendWelcome e stored url \<longrightarrow>
            snd (signup e now newId req d) = createSendToken e stored 201 \<and>
            delivered_token (snd (signup e now newId req d)) = Some (signToken e newId))"
proof -
  have c: "User_create e now newId (req_body req) d = Inr (stored, d @ [stored])"
    using User_create_valid [OF assms(1,2,3)] assms(4) by simp
  have u: "uid stored = newId"
    using assms(4) by (simp add: new_user_def)
  show ?thesis
    using c u assms(5)
    by (simp add: signup_def delivered_token_def createSendToken_def Let_def)
qed


text \<open>
  C2 as stated fails: with valid fields and a mail service that rejects, the handler ends in
  \<^verbatim>\<open>next(err)\<close> and delivers no token.
\<close>

theorem signup_welcome_failure_counterexample:
  "validate env_nomail (new_user env_nomail 4
      (mk_body (Some ''Ana'') (Some ''a@x.com'') (Some ''longpass1'') (Some ''longpass1''))) \<and>
   snd (signup env_nomail 5 4
      (mk_request None None
         (mk_body (Some ''Ana'') (Some ''a@x.com'') (Some ''longpass1'') (Some ''longpass1'')) [])
      []) = NextErr EmailError \<and>
   delivered_token (snd (signup env_nomail 5 4
      (mk_request None None
         (mk_body (Some ''Ana'') (Some ''a@x.com'') (Some ''longpass1'') (Some ''longpass1'')) [])
      [])) = None"
  by (simp add: run_defs validate_def required_def new_user_def signup_def User_create_def
      save_def preSave_hash_def preSave_changedAt_def persist_def delivered_token_def Let_def)

theorem signup_welcome_failure_witness:
  "fst (signup env_nomail 5 4
      (mk_request None None
         (mk_body (Some ''Ana'') (Some ''a@x.com'') (Some ''longpass1'') (Some ''longpass1'')) [])
      []) =
     [\<lparr>uid = 4, name = Some ''Ana'', email = Some ''a@x.com'', photo = ''default.jpg'',
       role = ''user'', password = Some ''$2a$12$longpass1'', passwordConfirm = None,
       passwordChangedAt = None, passwordResetToken = None, passwordResetExpires = None,
       active = True\<rparr>] \<and>
   snd (signup env_nomail 5 4
      (mk_request None None
         (mk_body (Some ''Ana'') (Some ''a@x.com'') (Some ''longpass1'') (Some ''longpass1'')) [])
      []) = NextErr EmailError \<and>
   delivered_token (snd (signup env0 5 4
      (mk_request None None
         (mk_body (Some ''Ana'') (Some ''a@x.com'') (Some ''longpass1'') (Some ''longpass1'')) [])
      [])) = Some ''t4''"
proof -
  let ?b = "mk_body (Some ''Ana'') (Some ''a@x.com'') (Some ''longpass1'') (Some ''longpass1'')"
  let ?req = "mk_request None None ?b []"
  let ?stored = "\<lparr>uid = 4, name = Some ''Ana'', email = Some ''a@x.com'', photo = ''default.jpg'',
       role = ''user'', password = Some ''$2a$12$longpass1'', passwordConfirm = None,
       passwordChangedAt = None, passwordResetToken = None, passwordResetExpires = None,
       active = True\<rparr>"
  have b: "req_body ?req = ?b" by (simp add: mk_request_def)
  have 1: "validate env_nomail (new_user env_nomail 4 (req_body ?req))"
          "validate env0 (new_user env0 4 (req_body ?req))"
    by (simp_all add: run_defs validate_def required_def new_user_def)
  have 2: "\<not> list_ex (\<lambda>r. email r = email (new_user env_nomail 4 (req_body ?req))) []"
          "\<not> list_ex (\<lambda>r. email r = email (new_user env0 4 (req_body ?req))) []"
    by simp_all
  have 3: "b_password (req_body ?req) = JString ''longpass1''"
    by (simp add: run_defs)
  have 4: "?stored = (new_user env_nomail 4 (req_body ?req))
              \<lparr>password := Some (bcrypt_hash env_nomail ''longpass1''), passwordConfirm := None\<rparr>"
          "?stored = (new_user env0 4 (req_body ?req))
              \<lparr>password := Some (bcrypt_hash env0 ''longpass1''), passwordConfirm := None\<rparr>"
    by (simp_all add: run_defs new_user_def)
  have 5: "''https://h/me'' = protocol ?req @ ''://'' @ host ?req @ ''/me''"
    by (simp add: run_defs)
  have 6: "\<not> sendWelcome env_nomail ?stored ''https://h/me''" "sendWelcome env0 ?stored ''https://h/me''"
    by (simp_all add: run_defs)
  have 7: "signToken env0 4 = ''t4''"
    by (simp add: signToken_def env0_def)
  note A = signup_welcome_failure [OF 1(1) 2(1) 3 4(1) 5, of 5]
  note B = signup_welcome_failure [OF 1(2) 2(2) 3 4(2) 5, of 5]
  have a1: "fst (signup env_nomail 5 4 ?req []) = [?stored]"
    using A [THEN conjunct1] by simp
  have a2: "snd (signup env_nomail 5 4 ?req []) = NextErr EmailError"
    using A [THEN conjunct2, THEN conjunct1] 6(1) by simp
  have "delivered_token (snd (signup env0 5 4 ?req [])) = Some (signToken env0 4)"
    by (rule B [THEN conjunct2, THEN conjunct2, THEN mp, OF 6(2), THEN conjunct2])
  then have a3: "delivered_token (snd (signup env0 5 4 ?req [])) = Some ''t4''"
    by (simp only: 7)
  show ?thesis using a1 a2 a3 by (intro conjI)
qed

subsection \<open>Revocation by password change\<close>

text \<open>
  C3 (as amended). A token that verifies with issued-at \<open>T\<close> (in seconds), for a user
  that is still found, is refused with the 401 "recently changed password" error whenever
  the user's \<open>passwordChangedAt\<close> is at least \<open>(T + 1) * 1000\<close> milliseconds, that is,
  one whole second or more after \<open>T\<close>. A timestamp after the epoch that is later than
  \<open>T\<close> by less than a second does not revoke the token.
\<close>

theorem password_change_revokes_token:
  assumes "protect_token req = Some t" and "t \<noteq> []"
    and "jwt_verify e t = Inr p"
    and "findById d (pid p) = Some u"
    and "passwordChangedAt u = Some c"
  shows "((iat p + 1) * 1000 \<le> c \<longrightarrow>
            protect e req d =
              NextErr (AppError ''User recenlty changed password. Please log in again.''
                         (Some 401))) \<and>
         (0 \<le> c \<and> c < (iat p + 1) * 1000 \<longrightarrow>
            protect e req d = Next (Some u) (Some u))"
proof -
  have h: "hasPasswordChangedAfter u (iat p) = (iat p < parseInt_seconds c)"
    using assms(5) by (simp add: hasPasswordChangedAfter_def)
  have a: "(iat p + 1) * 1000 \<le> c \<Longrightarrow> hasPasswordChangedAfter u (iat p)"
    using h parseInt_seconds_ge [of "iat p" c] by simp
  have b: "0 \<le> c \<Longrightarrow> c < (iat p + 1) * 1000 \<Longrightarrow> \<not> hasPasswordChangedAfter u (iat p)"
    using h parseInt_seconds_nonneg [of c "iat p"] by simp
  show ?thesis
    using a b assms(1-4) by (auto simp: protect_def)
qed

text \<open>
  C3 as stated fails for a timestamp that is later than \<open>T\<close> by less than a second: the
  token with \<open>iat = 100\<close> still passes for a user whose password changed at 100500 ms.
\<close>

theorem password_change_revokes_token_counterexample:
  "jwt_verify env0 ''t2'' = Inr \<lparr>pid = 2, iat = 100\<rparr> \<and>
   findById db0 2 = Some (select_default (mk_user 2 ''bob'' ''longpass2'' (Some 100500) True)) \<and>
   passwordChangedAt (select_default (mk_user 2 ''bob'' ''longpass2'' (Some 100500) True))
     = Some 100500 \<and>
   (100 :: int) * 1000 < 100500 \<and>
   protect env0 (mk_request None (Some ''t2'') no_body []) db0 =
     Next (Some (select_default (mk_user 2 ''bob'' ''longpass2'' (Some 100500) True)))
          (Some (select_default (mk_user 2 ''bob'' ''longpass2'' (Some 100500) True)))"
  by (simp add: run_defs protect_def)

theorem password_change_revokes_token_witness:
  "protect env0 (mk_request None (Some ''t4'') no_body []) db0 =
     NextErr (AppError ''User recenlty changed password. Please log in again.'' (Some 401)) \<and>
   protect env0 (mk_request None (Some ''t2'') no_body []) db0 =
     Next (Some (select_default (mk_user 2 ''bob'' ''longpass2'' (Some 100500) True)))
          (Some (select_default (mk_user 2 ''bob'' ''longpass2'' (Some 100500) True)))"
proof -
  have 4: "protect_token (mk_request None (Some ''t4'') no_body []) = Some ''t4''"
      "''t4'' \<noteq> []" "jwt_verify env0 ''t4'' = Inr \<lparr>pid = 4, iat = 100\<rparr>"
      "findById db0 (pid \<lparr>pid = 4, iat = 100\<rparr>) =
         Some (select_default (mk_user 4 ''dan'' ''longpass4'' (Some 101000) True))"
      "passwordChangedAt (select_default (mk_user 4 ''dan'' ''longpass4'' (Some 101000) True))
         = Some 101000"
    by (simp_all add: run_defs)
  have 2: "protect_token (mk_request None (Some ''t2'') no_body []) = Some ''t2''"
      "''t2'' \<noteq> []" "jwt_verify env0 ''t2'' = Inr \<lparr>pid = 2, iat = 100\<rparr>"
      "findById db0 (pid \<lparr>pid = 2, iat = 100\<rparr>) =
         Some (select_default (mk_user 2 ''bob'' ''longpass2'' (Some 100500) True))"
      "passwordChangedAt (select_default (mk_user 2 ''bob'' ''longpass2'' (Some 100500) True))
         = Some 100500"
    by (simp_all add: run_defs)
  have a: "protect env0 (mk_request None (Some ''t4'') no_body []) db0 =
     NextErr (AppError ''User recenlty changed password. Please log in again.'' (Some 401))"
    using password_change_revokes_token [OF 4, THEN conjunct1] by simp
  have b: "protect env0 (mk_request None (Some ''t2'') no_body []) db0 =
     Next (Some (select_default (mk_user 2 ''bob'' ''longpass2'' (Some 100500) True)))
          (Some (select_default (mk_user 2 ''bob'' ''longpass2'' (Some 100500) True)))"
    using password_change_revokes_token [OF 2, THEN conjunct2] by simp
  show ?thesis using a b by (intro conjI)
qed

subsection \<open>The non-enforcing variant\<close>

text \<open>
  C8 (as amended). \<^verbatim>\<open>isLoggedIn\<close> reads the token from the \<^verbatim>\<open>jwt\<close> cookie only
  and ignores the \<^verbatim>\<open>Authorization\<close> header; on that token it runs the checks of
  \<^verbatim>\<open>protect\<close>. Where \<^verbatim>\<open>protect\<close> would grant access it sets
  \<^verbatim>\<open>res.locals.user\<close> (and not \<^verbatim>\<open>req.user\<close>); on every failure it calls
  \<^verbatim>\<open>next()\<close> with no user attached. It never passes an error on and never writes a
  response.
\<close>

theorem isLoggedIn_never_fails:
  "isLoggedIn e req d =
     (case protect e (req\<lparr>authorization := None\<rparr>) d of
        Next a b \<Rightarrow> Next None b
      | NextErr err \<Rightarrow> Next None None
      | Sent r \<Rightarrow> Next None None) \<and>
   (\<exists>b. isLoggedIn e req d = Next None b) \<and>
   (\<forall>err. isLoggedIn e req d \<noteq> NextErr err) \<and>
   (\<forall>r. isLoggedIn e req d \<noteq> Sent r)"
  by (auto simp: isLoggedIn_def protect_def protect_token_def falsy_def
           split: option.splits sum.splits)

text \<open>
  C8 as stated fails on the extraction: a request that carries its token in a
  \<^verbatim>\<open>Bearer\<close> header and no cookie passes \<^verbatim>\<open>protect\<close> and stays anonymous in
  \<^verbatim>\<open>isLoggedIn\<close>.
\<close>

theorem isLoggedIn_never_fails_counterexample:
  "protect env0 (mk_request (Some ''Bearer t1'') None no_body []) db0 =
     Next (Some (select_default (mk_user 1 ''ana'' ''longpass1'' None True)))
          (Some (select_default (mk_user 1 ''ana'' ''longpass1'' None True))) \<and>
   isLoggedIn env0 (mk_request (Some ''Bearer t1'') None no_body []) db0 = Next None None"
  by (simp add: run_defs protect_def isLoggedIn_def)

theorem isLoggedIn_never_fails_witness:
  "isLoggedIn env0 (mk_request None (Some ''t1'') no_body []) db0 =
     Next None (Some (select_default (mk_user 1 ''ana'' ''longpass1'' None True))) \<and>
   isLoggedIn env0 (mk_request None (Some ''old'') no_body []) db0 = Next None None"
proof -
  have 1: "protect env0 ((mk_request None (Some ''t1'') no_body [])\<lparr>authorization := None\<rparr>) db0 =
     Next (Some (select_default (mk_user 1 ''ana'' ''longpass1'' None True)))
          (Some (select_default (mk_user 1 ''ana'' ''longpass1'' None True)))"
    by (simp add: run_defs protect_def)
  have 2: "protect env0 ((mk_request None (Some ''old'') no_body [])\<lparr>authorization := None\<rparr>) db0 =
     NextErr (JwtThrown TokenExpiredError)"
    by (simp add: run_defs protect_def)
  have a: "isLoggedIn env0 (mk_request None (Some ''t1'') no_body []) db0 =
     Next None (Some (select_default (mk_user 1 ''ana'' ''longpass1'' None True)))"
    using isLoggedIn_never_fails [of env0 "mk_request None (Some ''t1'') no_body []" db0, THEN conjunct1]
    by (simp only: 1 outcome.case)
  have b: "isLoggedIn env0 (mk_request None (Some ''old'') no_body []) db0 = Next None None"
    using isLoggedIn_never_fails [of env0 "mk_request None (Some ''old'') no_body []" db0, THEN conjunct1]
    by (simp only: 2 outcome.case)
  show ?thesis using a b by (intro conjI)
qed

subsection \<open>The save hook for the password-changed timestamp\<close>

lemma parseInt_seconds_back:
  "parseInt_seconds (now - 1000) \<le> now div 1000"
  by (auto simp: parseInt_seconds_def)

lemma changedAt_hook_passes:
  "now div 1000 \<le> t \<Longrightarrow> passwordChangedAt u = Some (now - 1000) \<Longrightarrow>
   \<not> hasPasswordChangedAfter u t"
  using parseInt_seconds_back [of now] by (simp add: hasPasswordChangedAfter_def)

lemma save_modified_existing:
  assumes "save e now v False True u d = Inr (u', d')"
  shows "passwordChangedAt u' = Some (now - 1000)"
    and "\<forall>r\<in>set d'. uid r = uid u \<longrightarrow> passwordChangedAt r = Some (now - 1000)"
  using assms
  by (auto simp: save_def preSave_hash_def preSave_changedAt_def persist_def write_row_def Let_def
           split: if_splits option.splits sum.splits)

text \<open>
  C9. When an existing document is saved with a modified password, the hook sets
  \<open>passwordChangedAt\<close> to the current time minus 1000 ms, in the document and in the
  stored row; a token whose issued-at (in whole seconds) is not before the second of the
  save passes \<^verbatim>\<open>hasPasswordChangedAfter\<close>. A new document, and a save that leaves the
  password alone, keep the field as it is.
\<close>

theorem changedAt_one_second_back:
  "passwordChangedAt (preSave_changedAt now True False u) = Some (now - 1000) \<and>
   (now div 1000 \<le> t \<longrightarrow> \<not> hasPasswordChangedAfter (preSave_changedAt now True False u) t) \<and>
   preSave_changedAt now m True u = u \<and>
   preSave_changedAt now False n u = u \<and>
   (save e now v False True u d = Inr (u', d') \<longrightarrow>
      passwordChangedAt u' = Some (now - 1000) \<and>
      (\<forall>r\<in>set d'. uid r = uid u \<longrightarrow> passwordChangedAt r = Some (now - 1000)) \<and>
      (now div 1000 \<le> t \<longrightarrow> \<not> hasPasswordChangedAfter u' t))"
proof -
  have 1: "passwordChangedAt (preSave_changedAt now True False u) = Some (now - 1000)"
    by (simp add: preSave_changedAt_def)
  have 2: "now div 1000 \<le> t \<longrightarrow> \<not> hasPasswordChangedAfter (preSave_changedAt now True False u) t"
    using changedAt_hook_passes [OF _ 1] by blast
  have 3: "preSave_changedAt now m True u = u" "preSave_changedAt now False n u = u"
    by (simp_all add: preSave_changedAt_def)
  have 4: "save e now v False True u d = Inr (u', d') \<longrightarrow>
      passwordChangedAt u' = Some (now - 1000) \<and>
      (\<forall>r\<in>set d'. uid r = uid u \<longrightarrow> passwordChangedAt r = Some (now - 1000)) \<and>
      (now div 1000 \<le> t \<longrightarrow> \<not> hasPasswordChangedAfter u' t)"
    using save_modified_existing [of e now v u d u' d'] changedAt_hook_passes [of now t u']
    by blast
  show ?thesis using 1 2 3 4 by (intro conjI)
qed

theorem changedAt_one_second_back_witness:
  "passwordChangedAt (preSave_changedAt 100999 True False (mk_user 1 ''ana'' ''longpass1'' None True))
     = Some 99999 \<and>
   \<not> hasPasswordChangedAfter
       (preSave_changedAt 100999 True False (mk_user 1 ''ana'' ''longpass1'' None True)) 100"
proof -
  have le: "(100999::int) div 1000 \<le> 100" by simp
  note A = changedAt_one_second_back [of 100999 "mk_user 1 ''ana'' ''longpass1'' None True" 100]
  have a: "passwordChangedAt (preSave_changedAt 100999 True False (mk_user 1 ''ana'' ''longpass1'' None True))
     = Some 99999"
    using A [THEN conjunct1] by simp
  have b: "\<not> hasPasswordChangedAfter
       (preSave_changedAt 100999 True False (mk_user 1 ''ana'' ''longpass1'' None True)) 100"
    using A [THEN conjunct2, THEN conjunct1, THEN mp, OF le] .
  show ?thesis using a b by (intro conjI)
qed

subsection \<open>Lookups see active users only\<close>

lemma login_deactivated:
  assumes "x \<in> set d" and "\<not> active x" and "distinct (map email d)"
    and "castString e (b_email (req_body r)) = Inr s"
    and "map_option (toLowerCase e) s = email x"
    and "\<not> falsy_js (b_email (req_body r))" and "\<not> falsy_js (b_password (req_body r))"
  shows "login e r d = NextErr (AppError ''Incorrect email or password.'' (Some 401))"
proof -
  have "\<forall>y\<in>set d. email y = email x \<longrightarrow> \<not> active y"
    using distinct_map_eq [OF assms(3) _ assms(1)] assms(2) by blast
  then have "\<forall>y\<in>set d. email_filter e s y \<longrightarrow> \<not> active y"
    using assms(5) by (simp add: email_filter_def)
  then have "findOne_select_password d (email_filter e s) = None"
    by (rule findOne_select_password_None)
  then show ?thesis
    using assms(4,6,7) by (simp add: login_def Let_def)
qed

lemma protect_deactivated:
  assumes "x \<in> set d" and "\<not> active x" and "distinct (map uid d)"
    and "protect_token req = Some t" and "t \<noteq> []"
    and "jwt_verify e t = Inr p" and "pid p = uid x"
  shows "protect e req d =
     NextErr (AppError ''The user belonging to this token does not longer exist'' (Some 401))"
proof -
  have "\<forall>y\<in>set d. uid y = uid x \<longrightarrow> \<not> active y"
    using distinct_map_eq [OF assms(3) _ assms(1)] assms(2) by blast
  then have "findById d (uid x) = None"
    unfolding findById_def by (rule findOne_None)
  then show ?thesis
    using assms(4-7) by (simp add: protect_def)
qed

text \<open>
  C10. Every lookup of the subsystem goes through the \<^verbatim>\<open>pre(/^find/)\<close> middleware and
  returns active users only: by email (login, forgot-password), by id (token verification)
  and by reset-token digest (reset). Hence, for a deactivated user of a collection with
  unique emails and ids, a login with its email (as the query casts and lower-cases it)
  fails with the generic
  "Incorrect email or password." 401, and a token that verifies for its id is refused
  with the 401 "does not longer exist".
\<close>

theorem lookups_exclude_inactive:
  "(findOne_select_password d q = Some u \<longrightarrow> active u) \<and>
   (findOne_email e d em = Some u \<longrightarrow> active u) \<and>
   (findById d i = Some u \<longrightarrow> active u) \<and>
   (findOne_reset d h n = Some u \<longrightarrow> active u) \<and>
   (x \<in> set d \<and> \<not> active x \<and> distinct (map email d) \<and>
    castString e (b_email (req_body r)) = Inr s \<and> map_option (toLowerCase e) s = email x \<and>
    \<not> falsy_js (b_email (req_body r)) \<and> \<not> falsy_js (b_password (req_body r)) \<longrightarrow>
      login e r d = NextErr (AppError ''Incorrect email or password.'' (Some 401))) \<and>
   (x \<in> set d \<and> \<not> active x \<and> distinct (map uid d) \<and>
    protect_token req = Some t \<and> t \<noteq> [] \<and> jwt_verify e t = Inr p \<and> pid p = uid x \<longrightarrow>
      protect e req d =
        NextErr (AppError ''The user belonging to this token does not longer exist''
                   (Some 401)))"
proof -
  have 1: "findOne_select_password d q = Some u \<longrightarrow> active u"
    using findOne_select_password_active [of d q u] by blast
  have 2: "findOne_email e d em = Some u \<longrightarrow> active u"
    unfolding findOne_email_def using findOne_active [of d _ u] by blast
  have 3: "findById d i = Some u \<longrightarrow> active u"
    unfolding findById_def using findOne_active [of d _ u] by blast
  have 4: "findOne_reset d h n = Some u \<longrightarrow> active u"
    unfolding findOne_reset_def using findOne_active [of d _ u] by blast
  have 5: "x \<in> set d \<and> \<not> active x \<and> distinct (map email d) \<and>
    castString e (b_email (req_body r)) = Inr s \<and> map_option (toLowerCase e) s = email x \<and>
    \<not> falsy_js (b_email (req_body r)) \<and> \<not> falsy_js (b_password (req_body r)) \<longrightarrow>
      login e r d = NextErr (AppError ''Incorrect email or password.'' (Some 401))"
    using login_deactivated [of x d e r s] by blast
  have 6: "x \<in> set d \<and> \<not> active x \<and> distinct (map uid d) \<and>
    protect_token req = Some t \<and> t \<noteq> [] \<and> jwt_verify e t = Inr p \<and> pid p = uid x \<longrightarrow>
      protect e req d =
        NextErr (AppError ''The user belonging to this token does not longer exist''
                   (Some 401))"
    using protect_deactivated [of x d req t e p] by blast
  show ?thesis using 1 2 3 4 5 6 by (intro conjI)
qed

theorem lookups_exclude_inactive_witness:
  "login env0 (mk_request None None (mk_body None (Some ''Cy@X.com'') (Some ''longpass3'') None) [])
     db0 = NextErr (AppError ''Incorrect email or password.'' (Some 401)) \<and>
   protect env0 (mk_request None (Some ''t3'') no_body []) db0 =
     NextErr (AppError ''The user belonging to this token does not longer exist'' (Some 401)) \<and>
   active (select_default (mk_user 1 ''ana'' ''longpass1'' None True))"
proof -
  let ?x = "mk_user 3 ''cy'' ''longpass3'' None False"
  let ?r = "mk_request None None (mk_body None (Some ''Cy@X.com'') (Some ''longpass3'') None) []"
  let ?req = "mk_request None (Some ''t3'') no_body []"
  let ?p = "\<lparr>pid = 3, iat = 100\<rparr>"
  note A = lookups_exclude_inactive [where d = db0 and x = ?x and r = ?r and e = env0
      and s = "Some ''Cy@X.com''"
      and req = ?req and t = "''t3''" and p = ?p and i = 1
      and u = "select_default (mk_user 1 ''ana'' ''longpass1'' None True)"]
  have 1: "?x \<in> set db0 \<and> \<not> active ?x \<and> distinct (map email db0) \<and>
    castString env0 (b_email (req_body ?r)) = Inr (Some ''Cy@X.com'') \<and>
    map_option (toLowerCase env0) (Some ''Cy@X.com'') = email ?x \<and>
    \<not> falsy_js (b_email (req_body ?r)) \<and> \<not> falsy_js (b_password (req_body ?r))"
    by (simp add: run_defs)
  have 2: "?x \<in> set db0 \<and> \<not> active ?x \<and> distinct (map uid db0) \<and>
    protect_token ?req = Some ''t3'' \<and> ''t3'' \<noteq> [] \<and> jwt_verify env0 ''t3'' = Inr ?p \<and>
    pid ?p = uid ?x"
    by (simp add: run_defs)
  have 3: "findById db0 1 = Some (select_default (mk_user 1 ''ana'' ''longpass1'' None True))"
    by (simp add: run_defs)
  have a: "login env0 ?r db0 = NextErr (AppError ''Incorrect email or password.'' (Some 401))"
    using A [THEN conjunct2, THEN conjunct2, THEN conjunct2, THEN conjunct2, THEN conjunct1,
        THEN mp, OF 1] .
  have b: "protect env0 ?req db0 =
     NextErr (AppError ''The user belonging to this token does not longer exist'' (Some 401))"
    using A [THEN conjunct2, THEN conjunct2, THEN conjunct2, THEN conjunct2, THEN conjunct2,
        THEN mp, OF 2] .
  have c: "active (select_default (mk_user 1 ''ana'' ''longpass1'' None True))"
    using A [THEN conjunct2, THEN conjunct2, THEN conjunct1, THEN mp, OF 3] .
  show ?thesis using a b c by (intro conjI)
qed

subsection \<open>Login\<close>

lemma login_unknown_email:
  assumes "\<not> falsy_js (b_email (req_body r))" and "\<not> falsy_js (b_password (req_body r))"
    and "castString e (b_email (req_body r)) = Inr s"
    and "\<forall>y\<in>set d. active y \<longrightarrow> email y \<noteq> map_option (toLowerCase e) s"
  shows "login e r d = NextErr (AppError ''Incorrect email or password.'' (Some 401))"
proof -
  have "\<forall>y\<in>set d. email_filter e s y \<longrightarrow> \<not> active y"
    using assms(4) by (auto simp: email_filter_def)
  then have "findOne_select_password d (email_filter e s) = None"
    by (rule findOne_select_password_None)
  then show ?thesis
    using assms(1,2,3) by (simp add: login_def Let_def)
qed

lemma login_registered_lookup:
  assumes "distinct (map email d)" and "x \<in> set d" and "active x"
    and "email x = map_option (toLowerCase e) s"
  shows "findOne_select_password d (email_filter e s) = Some x"
proof -
  have "email_filter e s = (\<lambda>u. email u = email x)"
    using assms(4) by (simp add: email_filter_def fun_eq_iff)
  then show ?thesis
    using find_by_unique_key [OF assms(1,2,3)] by (simp add: findOne_select_password_def)
qed

text \<open>
  For string credentials the two failures coincide: a registered email with a password
  that \<^verbatim>\<open>bcrypt.compare\<close> rejects ends in the same error as an unknown email.
\<close>

lemma login_wrong_password:
  assumes "distinct (map email d)" and "x \<in> set d" and "active x"
    and "b_email (req_body r) = JString a" and "a \<noteq> []"
    and "email x = Some (toLowerCase e a)"
    and "b_password (req_body r) = JString c" and "c \<noteq> []"
    and "password x = Some h" and "\<not> bcrypt_compare e c h"
  shows "login e r d = NextErr (AppError ''Incorrect email or password.'' (Some 401))"
proof -
  have "findOne_select_password d (email_filter e (Some a)) = Some x"
    using assms(6) by (intro login_registered_lookup [OF assms(1,2,3)]) simp
  then show ?thesis
    using assms(4,5,7,8,9,10)
    by (simp add: login_def Let_def falsy_js_def castString_def isCorrectPassword_def)
qed

text \<open>
  A password that is truthy and not a string reaches \<^verbatim>\<open>bcrypt.compare\<close> when, and
  only when, the email is registered: the promise rejects and \<^verbatim>\<open>catchAsync\<close>
  forwards that error instead of the generic one.
\<close>

lemma login_password_not_a_string:
  assumes "distinct (map email d)" and "x \<in> set d" and "active x"
    and "b_email (req_body r) = JString a" and "a \<noteq> []"
    and "email x = Some (toLowerCase e a)"
    and "\<not> falsy_js (b_password (req_body r))"
    and "\<forall>c. b_password (req_body r) \<noteq> JString c"
  shows "login e r d = NextErr BcryptError"
proof -
  have "findOne_select_password d (email_filter e (Some a)) = Some x"
    using assms(6) by (intro login_registered_lookup [OF assms(1,2,3)]) simp
  then show ?thesis
    using assms(4,5,7,8)
    by (cases "b_password (req_body r)"; cases "password x")
       (simp_all add: login_def Let_def falsy_js_def castString_def)
qed

text \<open>
  C6 fails on the code. Two login requests with the password \<^verbatim>\<open>123\<close> (a JSON number,
  wrong for every user): for the registered email \<^verbatim>\<open>ana@x.com\<close> the handler ends in
  the error that \<^verbatim>\<open>bcrypt.compare\<close> throws, for the unregistered email
  \<^verbatim>\<open>eve@x.com\<close> in the generic "Incorrect email or password." 401. The two
  failures differ, so the caller can tell a registered email from an unknown one.
\<close>

theorem login_number_password_distinguishes:
  "login env0
     (mk_request None None
        \<lparr>b_name = JUndefined, b_email = JString ''ana@x.com'', b_password = JNumber 123,
          b_passwordConfirm = JUndefined\<rparr> []) db0 = NextErr BcryptError \<and>
   login env0
     (mk_request None None
        \<lparr>b_name = JUndefined, b_email = JString ''eve@x.com'', b_password = JNumber 123,
          b_passwordConfirm = JUndefined\<rparr> []) db0 =
     NextErr (AppError ''Incorrect email or password.'' (Some 401))"
  by (simp add: run_defs login_def Let_def)

subsection \<open>Forgot-password\<close>

lemma save_unvalidated_unmodified:
  "save e now False False False u d = Inr (u, map (write_row False u) d)"
  by (simp add: save_def preSave_hash_def preSave_changedAt_def persist_def)

lemma forgotPassword_not_found:
  "castString e (b_email (req_body req)) = Inr s \<Longrightarrow> findOne_email e d s = None \<Longrightarrow>
   forgotPassword e now req d =
     (d, NextErr (AppError ''There is no user with the provided email address.'' (Some 404)))"
  by (simp add: forgotPassword_def)

lemma forgotPassword_sent:
  assumes "castString e (b_email (req_body req)) = Inr s"
    and "findOne_email e d s = Some u"
    and "sendPasswordReset e (snd (createPasswordResetToken e now u))
           (protocol req @ ''://'' @ host req @ ''/api/v1/users/resetPassword/'' @
            fst (createPasswordResetToken e now u))"
  shows "forgotPassword e now req d =
     (map (write_row False (snd (createPasswordResetToken e now u))) d,
      Sent \<lparr>statusCode = 200, set_cookie_jwt = None,
            json_body = MessageBody ''Token sent to user email.''\<rparr>)"
  using assms
  by (simp add: forgotPassword_def save_unvalidated_unmodified Let_def case_prod_beta)

lemma forgotPassword_send_failed:
  assumes "castString e (b_email (req_body req)) = Inr s"
    and "findOne_email e d s = Some u"
    and "\<not> sendPasswordReset e (snd (createPasswordResetToken e now u))
           (protocol req @ ''://'' @ host req @ ''/api/v1/users/resetPassword/'' @
            fst (createPasswordResetToken e now u))"
  shows "forgotPassword e now req d =
     (map (write_row False (clear_reset (snd (createPasswordResetToken e now u))))
        (map (write_row False (snd (createPasswordResetToken e now u))) d),
      NextErr (AppError ''There was an error sending the email. Try again later.'' (Some 500)))"
  using assms
  by (simp add: forgotPassword_def save_unvalidated_unmodified Let_def case_prod_beta)

lemma uid_created: "uid (snd (createPasswordResetToken e now u)) = uid u"
  by (simp add: createPasswordResetToken_def Let_def)

lemma write_row_uid: "uid (write_row m u r) = uid r"
  by (simp add: write_row_def)

lemma write_row_other: "uid r \<noteq> uid u \<Longrightarrow> write_row m u r = r"
  by (simp add: write_row_def)

lemma findOne_email_unique:
  assumes "distinct (map email d)" and "x \<in> set d" and "active x"
    and "email x = map_option (toLowerCase e) s"
  shows "findOne_email e d s = Some (select_default x)"
proof -
  have "email_filter e s = (\<lambda>u. email u = email x)"
    using assms(4) by (simp add: email_filter_def fun_eq_iff)
  then show ?thesis
    using find_by_unique_key [OF assms(1,2,3)] by (simp add: findOne_email_def findOne_def)
qed

lemma findOne_email_none:
  "\<forall>r\<in>set d. active r \<longrightarrow> email r \<noteq> map_option (toLowerCase e) s \<Longrightarrow>
   findOne_email e d s = None"
  unfolding findOne_email_def by (rule findOne_None) (auto simp: email_filter_def)

text \<open>Writing the token and clearing it again leaves the row with cleared reset fields.\<close>

lemma set_then_clear_row:
  "write_row False (clear_reset (snd (createPasswordResetToken e now (select_default x))))
     (write_row False (snd (createPasswordResetToken e now (select_default x))) x)
   = clear_reset x"
  by (cases x)
     (simp add: write_row_def clear_reset_def createPasswordResetToken_def Let_def
        select_default_def)

lemma set_then_clear:
  assumes "distinct (map uid d)" and "x \<in> set d"
  shows "map (write_row False (clear_reset (snd (createPasswordResetToken e now (select_default x)))))
           (map (write_row False (snd (createPasswordResetToken e now (select_default x)))) d)
         = map (\<lambda>r. if uid r = uid x then clear_reset r else r) d"
proof -
  let ?u1 = "snd (createPasswordResetToken e now (select_default x))"
  have u1: "uid ?u1 = uid x" "uid (clear_reset ?u1) = uid x"
    by (simp_all add: uid_created select_default_def clear_reset_def)
  have "write_row False (clear_reset ?u1) (write_row False ?u1 r) =
          (if uid r = uid x then clear_reset r else r)" if "r \<in> set d" for r
  proof (cases "uid r = uid x")
    case True
    then have "r = x"
      using distinct_map_eq [OF assms(1) that assms(2)] by simp
    then show ?thesis
      using set_then_clear_row [of e now x] by simp
  next
    case False
    then show ?thesis
      using u1 by (simp add: write_row_other)
  qed
  then show ?thesis by simp
qed

text \<open>
  C5. When the email of a forgot-password request (as the query casts and lower-cases it)
  is the email of no active user, the handler fails with the 404 error and the collection
  is left as it was. When it is the email of an active user of a collection with unique
  emails and ids, and the send of the reset email fails, the handler fails with the 500
  "error sending the email" error and the collection is the one before the request
  with the reset-token digest and expiry of that user cleared: the stored row of the user
  holds neither, and the rows of the other users are as before.
\<close>

theorem forgot_send_failure:
  "(castString e (b_email (req_body req)) = Inr s \<and>
    (\<forall>r\<in>set d. active r \<longrightarrow> email r \<noteq> map_option (toLowerCase e) s) \<longrightarrow>
      forgotPassword e now req d =
        (d, NextErr (AppError ''There is no user with the provided email address.''
                       (Some 404)))) \<and>
   (castString e (b_email (req_body req)) = Inr s \<and>
    distinct (map email d) \<and> distinct (map uid d) \<and>
    x \<in> set d \<and> active x \<and> email x = map_option (toLowerCase e) s \<and>
    \<not> sendPasswordReset e (snd (createPasswordResetToken e now (select_default x)))
         (protocol req @ ''://'' @ host req @ ''/api/v1/users/resetPassword/'' @
          fst (createPasswordResetToken e now (select_default x))) \<longrightarrow>
      forgotPassword e now req d =
        (map (\<lambda>r. if uid r = uid x then clear_reset r else r) d,
         NextErr (AppError ''There was an error sending the email. Try again later.''
                    (Some 500))) \<and>
      (\<forall>r\<in>set (fst (forgotPassword e now req d)).
         uid r = uid x \<longrightarrow> passwordResetToken r = None \<and> passwordResetExpires r = None) \<and>
      (\<forall>r\<in>set (fst (forgotPassword e now req d)). uid r \<noteq> uid x \<longrightarrow> r \<in> set d))"
proof -
  have 1: "forgotPassword e now req d =
        (d, NextErr (AppError ''There is no user with the provided email address.''
                       (Some 404)))"
    if "castString e (b_email (req_body req)) = Inr s"
      and "\<forall>r\<in>set d. active r \<longrightarrow> email r \<noteq> map_option (toLowerCase e) s"
    using forgotPassword_not_found [OF that(1) findOne_email_none [OF that(2)]] .
  have 2: "forgotPassword e now req d =
        (map (\<lambda>r. if uid r = uid x then clear_reset r else r) d,
         NextErr (AppError ''There was an error sending the email. Try again later.''
                    (Some 500))) \<and>
      (\<forall>r\<in>set (fst (forgotPassword e now req d)).
         uid r = uid x \<longrightarrow> passwordResetToken r = None \<and> passwordResetExpires r = None) \<and>
      (\<forall>r\<in>set (fst (forgotPassword e now req d)). uid r \<noteq> uid x \<longrightarrow> r \<in> set d)"
    if c: "castString e (b_email (req_body req)) = Inr s"
      and de: "distinct (map email d)" and du: "distinct (map uid d)"
      and x: "x \<in> set d" "active x" "email x = map_option (toLowerCase e) s"
      and f: "\<not> sendPasswordReset e (snd (createPasswordResetToken e now (select_default x)))
         (protocol req @ ''://'' @ host req @ ''/api/v1/users/resetPassword/'' @
          fst (createPasswordResetToken e now (select_default x)))"
  proof -
    have fo: "findOne_email e d s = Some (select_default x)"
      using findOne_email_unique [OF de x] .
    have r: "forgotPassword e now req d =
        (map (\<lambda>r. if uid r = uid x then clear_reset r else r) d,
         NextErr (AppError ''There was an error sending the email. Try again later.''
                    (Some 500)))"
      using forgotPassword_send_failed [OF c fo f] set_then_clear [OF du x(1)] by simp
    have a: "\<forall>r\<in>set (map (\<lambda>r. if uid r = uid x then clear_reset r else r) d).
         uid r = uid x \<longrightarrow> passwordResetToken r = None \<and> passwordResetExpires r = None"
      by (auto simp: clear_reset_def)
    have b: "\<forall>r\<in>set (map (\<lambda>r. if uid r = uid x then clear_reset r else r) d).
         uid r \<noteq> uid x \<longrightarrow> r \<in> set d"
      by (auto simp: clear_reset_def)
    show ?thesis
      using a b by (simp only: r fst_conv)
  qed
  show ?thesis using 1 2 by blast
qed

theorem forgot_send_failure_witness:
  "forgotPassword env_nomail 1000
     (mk_request None None (mk_body None (Some ''eve@x.com'') None None) []) db0 =
     (db0, NextErr (AppError ''There is no user with the provided email address.'' (Some 404))) \<and>
   forgotPassword env_nomail 1000
     (mk_request None None (mk_body None (Some ''Ana@X.com'') None None) []) db0 =
     (db0, NextErr (AppError ''There was an error sending the email. Try again later.''
        (Some 500)))"
proof -
  let ?r0 = "mk_request None None (mk_body None (Some ''eve@x.com'') None None) []"
  let ?r1 = "mk_request None None (mk_body None (Some ''Ana@X.com'') None None) []"
  let ?x = "mk_user 1 ''ana'' ''longpass1'' None True"
  have 0: "castString env_nomail (b_email (req_body ?r0)) = Inr (Some ''eve@x.com'') \<and>
    (\<forall>r\<in>set db0. active r \<longrightarrow>
       email r \<noteq> map_option (toLowerCase env_nomail) (Some ''eve@x.com''))"
    by (simp add: run_defs)
  have 1: "castString env_nomail (b_email (req_body ?r1)) = Inr (Some ''Ana@X.com'') \<and>
    distinct (map email db0) \<and> distinct (map uid db0) \<and>
    ?x \<in> set db0 \<and> active ?x \<and>
    email ?x = map_option (toLowerCase env_nomail) (Some ''Ana@X.com'') \<and>
    \<not> sendPasswordReset env_nomail
         (snd (createPasswordResetToken env_nomail 1000 (select_default ?x)))
         (protocol ?r1 @ ''://'' @ host ?r1 @ ''/api/v1/users/resetPassword/'' @
          fst (createPasswordResetToken env_nomail 1000 (select_default ?x)))"
    by (simp add: run_defs)
  have same: "map (\<lambda>r. if uid r = uid ?x then clear_reset r else r) db0 = db0"
    by (simp add: run_defs clear_reset_def)
  have a: "forgotPassword env_nomail 1000 ?r0 db0 =
     (db0, NextErr (AppError ''There is no user with the provided email address.'' (Some 404)))"
    using forgot_send_failure [where d = db0 and req = ?r0 and e = env_nomail and now = 1000
        and s = "Some ''eve@x.com''", THEN conjunct1, THEN mp, OF 0] .
  have b: "forgotPassword env_nomail 1000 ?r1 db0 =
     (db0, NextErr (AppError ''There was an error sending the email. Try again later.''
        (Some 500)))"
    using forgot_send_failure [where d = db0 and req = ?r1 and e = env_nomail and now = 1000
        and s = "Some ''Ana@X.com''" and x = ?x, THEN conjunct2, THEN mp, OF 1, THEN conjunct1]
    by (simp only: same)
  show ?thesis using a b by (intro conjI)
qed

subsection \<open>The reset-token generator\<close>

lemma hex_digit_in: "n < 16 \<Longrightarrow> hex_digit n \<in> set ''0123456789abcdef''"
  unfolding hex_digit_def by (rule nth_mem) simp

lemma hex_byte_digits: "set (hex_byte w) \<subseteq> set ''0123456789abcdef''"
proof -
  have "unat w div 16 < 16"
    using unsigned_less [of w, where ?'a = nat] by simp
  moreover have "unat w mod 16 < 16" by simp
  ultimately show ?thesis
    using hex_digit_in [of "unat w div 16"] hex_digit_in [of "unat w mod 16"]
    by (simp add: hex_byte_def)
qed

lemma length_toString_hex: "length (toString_hex bs) = 2 * length bs"
  by (induction bs) (simp_all add: toString_hex_def hex_byte_def)

lemma set_concat_map_subset:
  "(\<And>b. set (f b) \<subseteq> S) \<Longrightarrow> set (concat (map f bs)) \<subseteq> S"
  by (induction bs) auto

lemma set_toString_hex: "set (toString_hex bs) \<subseteq> set ''0123456789abcdef''"
  unfolding toString_hex_def by (rule set_concat_map_subset) (rule hex_byte_digits)

text \<open>
  The secret that \<^verbatim>\<open>createPasswordResetToken\<close> returns is the hex rendering of the 32
  bytes it draws: 64 characters, each a lower-case hexadecimal digit.
\<close>

lemma resetToken_hex:
  "length (fst (createPasswordResetToken e now u)) = 64 \<and>
   set (fst (createPasswordResetToken e now u)) \<subseteq> set ''0123456789abcdef''"
proof -
  have f: "fst (createPasswordResetToken e now u) = toString_hex (randomBytes e 32)"
    by (simp add: createPasswordResetToken_def Let_def)
  have l: "length (toString_hex (randomBytes e 32)) = 64"
    by (simp add: length_toString_hex randomBytes_def)
  show ?thesis
    using l set_toString_hex [of "randomBytes e 32"] by (simp add: f)
qed

subsection \<open>Reset-password\<close>

lemma resetPassword_refused:
  assumes "\<forall>r\<in>set d. active r \<longrightarrow> passwordResetToken r = Some (sha256_hex e (params_token rq)) \<longrightarrow>
             (case passwordResetExpires r of None \<Rightarrow> True | Some x \<Rightarrow> x \<le> n)"
  shows "resetPassword e n n' rq d =
           (d, NextErr (AppError ''Token is invalid or has expired.'' (Some 400)))"
proof -
  have "findOne_reset d (sha256_hex e (params_token rq)) n = None"
    unfolding findOne_reset_def
  proof (rule findOne_None, intro ballI impI)
    fix r
    assume r: "r \<in> set d"
      and q: "passwordResetToken r = Some (sha256_hex e (params_token rq)) \<and>
              (case passwordResetExpires r of None \<Rightarrow> False | Some x \<Rightarrow> n < x)"
    show "\<not> active r"
    proof
      assume "active r"
      with assms r q have "case passwordResetExpires r of None \<Rightarrow> True | Some x \<Rightarrow> x \<le> n"
        by blast
      with q show False
        by (cases "passwordResetExpires r") auto
    qed
  qed
  then show ?thesis
    by (simp add: resetPassword_def Let_def)
qed

lemma findOne_email_row:
  assumes "findOne_email e d s = Some u"
  obtains row where "row \<in> set d" and "u = select_default row" and "active row"
  using findOne_active [of d "email_filter e s" u] assms
  unfolding findOne_email_def by blast

text \<open>The collection after a forgot-password request whose email was sent.\<close>

lemma after_forgot:
  assumes dist: "distinct (map uid d)"
    and row: "row \<in> set d" and u: "u = select_default row"
    and d1: "d1 = map (write_row False (snd (createPasswordResetToken e now u))) d"
    and h: "h = sha256_hex e (fst (createPasswordResetToken e now u))"
  shows "map uid d1 = map uid d"
    and "row\<lparr>passwordResetToken := Some h, passwordResetExpires := Some (now + 600000)\<rparr> \<in> set d1"
    and "\<forall>r\<in>set d1. uid r = uid u \<longrightarrow>
           r = row\<lparr>passwordResetToken := Some h, passwordResetExpires := Some (now + 600000)\<rparr>"
    and "\<forall>r\<in>set d1. uid r \<noteq> uid u \<longrightarrow> r \<in> set d"
proof -
  let ?u1 = "snd (createPasswordResetToken e now u)"
  let ?row1 = "row\<lparr>passwordResetToken := Some h, passwordResetExpires := Some (now + 600000)\<rparr>"
  have uu: "uid ?u1 = uid row"
    using u by (simp add: uid_created select_default_def)
  have w: "write_row False ?u1 row = ?row1"
    using u h by (simp add: write_row_def createPasswordResetToken_def Let_def select_default_def)
  show "map uid d1 = map uid d"
    by (simp add: d1 write_row_uid o_def)
  show "?row1 \<in> set d1"
    using row w unfolding d1 by (metis image_eqI set_map)
  have same: "r = row" if "r \<in> set d" and "uid r = uid row" for r
    using distinct_map_eq [OF dist that(1) row that(2)] .
  show "\<forall>r\<in>set d1. uid r = uid u \<longrightarrow> r = ?row1"
  proof (intro ballI impI)
    fix r assume r: "r \<in> set d1" and i: "uid r = uid u"
    from r obtain r0 where r0: "r0 \<in> set d" and e: "r = write_row False ?u1 r0"
      unfolding d1 by auto
    have "uid r0 = uid row"
      using i e u by (simp add: write_row_uid select_default_def)
    then have "r0 = row" using same r0 by blast
    then show "r = ?row1" using e w by simp
  qed
  show "\<forall>r\<in>set d1. uid r \<noteq> uid u \<longrightarrow> r \<in> set d"
  proof (intro ballI impI)
    fix r assume r: "r \<in> set d1" and i: "uid r \<noteq> uid u"
    from r obtain r0 where r0: "r0 \<in> set d" and e: "r = write_row False ?u1 r0"
      unfolding d1 by auto
    have "uid r0 \<noteq> uid ?u1"
      using i e by (simp add: write_row_uid uid_created)
    then have "r = r0" using e by (simp add: write_row_other)
    then show "r \<in> set d" using r0 by simp
  qed
qed


lemma findOne_reset_found:
  assumes "row1 \<in> set d1" and "active row1"
    and "passwordResetToken row1 = Some h" and "passwordResetExpires row1 = Some x" and "n < x"
    and "\<forall>r\<in>set d1. r \<noteq> row1 \<longrightarrow> passwordResetToken r \<noteq> Some h"
  shows "findOne_reset d1 h n = Some (select_default row1)"
proof -
  let ?q = "\<lambda>u. passwordResetToken u = Some h \<and>
                 (case passwordResetExpires u of None \<Rightarrow> False | Some x \<Rightarrow> n < x)"
  have "find (preFind ?q) d1 = Some row1"
  proof (rule find_only)
    show "row1 \<in> set d1" by (rule assms(1))
    show "preFind ?q row1" using assms(2-5) by (simp add: preFind_def)
    show "y = row1" if "y \<in> set d1" and "preFind ?q y" for y
      using that assms(6) by (auto simp: preFind_def)
  qed
  then show ?thesis
    by (simp add: findOne_reset_def findOne_def)
qed

lemma resetPassword_success:
  assumes "findOne_reset d1 (sha256_hex e (params_token rq)) n = Some v"
    and "b_password (req_body rq) = JString p" and "8 \<le> length p"
    and "b_passwordConfirm (req_body rq) = JString p"
    and "required (name v)" and "required (email v)"
    and "case email v of None \<Rightarrow> False | Some a \<Rightarrow> isEmail e a"
    and "role v \<in> set role_enum"
    and u2: "u2 = v\<lparr>password := Some (bcrypt_hash e p), passwordConfirm := None,
                 passwordChangedAt := Some (n' - 1000),
                 passwordResetToken := None, passwordResetExpires := None\<rparr>"
  shows "resetPassword e n n' rq d1 = (map (write_row True u2) d1, createSendToken e u2 200)"
proof -
  let ?u1 = "v\<lparr>password := Some p, passwordConfirm := Some p,
               passwordResetToken := None, passwordResetExpires := None\<rparr>"
  have ne: "p \<noteq> []" using assms(3) by auto
  have val: "validate e ?u1"
    using assms(3,5,6,7,8) ne by (simp add: validate_def required_def falsy_def)
  have eq: "?u1\<lparr>password := Some (bcrypt_hash e p), passwordConfirm := None,
                passwordChangedAt := Some (n' - 1000)\<rparr> = u2"
    unfolding u2 by (cases v) simp
  have "save e n' True False True ?u1 d1 =
          Inr (?u1\<lparr>password := Some (bcrypt_hash e p), passwordConfirm := None,
                    passwordChangedAt := Some (n' - 1000)\<rparr>,
               map (write_row True (?u1\<lparr>password := Some (bcrypt_hash e p),
                    passwordConfirm := None, passwordChangedAt := Some (n' - 1000)\<rparr>)) d1)"
    using val
    by (simp add: save_def preSave_hash_def preSave_changedAt_def persist_def Let_def)
  then have sv: "save e n' True False True ?u1 d1 = Inr (u2, map (write_row True u2) d1)"
    by (simp only: eq)
  show ?thesis
    using assms(1,2,4) sv by (simp add: resetPassword_def Let_def cast_path_def castString_def)
qed


text \<open>
  C4. After a forgot-password request for a user of a collection with unique ids, whose
  freshly drawn secret has a digest that no other user holds, a reset-password request
  with that secret, a new password of at least eight characters and a matching
  confirmation, made before the expiry, succeeds when the stored name, email and role of
  the user pass the validators of the schema: the response carries a new token, and the
  stored row of the user has the hash of the new password and neither digest nor expiry.
  From then on every reset-password request with the same secret fails with the 400
  "Token is invalid or has expired." error and changes nothing. So does a request made
  at or after the expiry, and a request with a secret of another digest.
\<close>

theorem reset_token_once:
  assumes dist: "distinct (map uid d)"
    and cast: "castString e (b_email (req_body req)) = Inr s"
    and found: "findOne_email e d s = Some u"
    and sec: "secret = fst (createPasswordResetToken e now u)"
    and sent: "sendPasswordReset e (snd (createPasswordResetToken e now u))
                 (protocol req @ ''://'' @ host req @ ''/api/v1/users/resetPassword/'' @ secret)"
    and fresh: "\<forall>r\<in>set d. uid r \<noteq> uid u \<longrightarrow> passwordResetToken r \<noteq> Some (sha256_hex e secret)"
    and d1: "d1 = fst (forgotPassword e now req d)"
    and d2: "d2 = fst (resetPassword e n n' rq d1)"
    and tok: "params_token rq = secret"
  shows "(b_password (req_body rq) = JString p \<and> 8 \<le> length p \<and>
          b_passwordConfirm (req_body rq) = JString p \<and>
          required (name u) \<and> required (email u) \<and>
          (case email u of None \<Rightarrow> False | Some a \<Rightarrow> isEmail e a) \<and>
          role u \<in> set role_enum \<and>
          n < now + 600000 \<longrightarrow>
            snd (resetPassword e n n' rq d1) =
              createSendToken e
                (u\<lparr>password := Some (bcrypt_hash e p), passwordConfirm := None,
                   passwordChangedAt := Some (n' - 1000),
                   passwordResetToken := None, passwordResetExpires := None\<rparr>) 200 \<and>
            delivered_token (snd (resetPassword e n n' rq d1)) = Some (signToken e (uid u)) \<and>
            (\<forall>r\<in>set d2. uid r = uid u \<longrightarrow>
               passwordResetToken r = None \<and> passwordResetExpires r = None \<and>
               password r = Some (bcrypt_hash e p)) \<and>
            (\<forall>m m' rq'. params_token rq' = secret \<longrightarrow>
               resetPassword e m m' rq' d2 =
                 (d2, NextErr (AppError ''Token is invalid or has expired.'' (Some 400))))) \<and>
         (now + 600000 \<le> n \<longrightarrow>
            resetPassword e n n' rq d1 =
              (d1, NextErr (AppError ''Token is invalid or has expired.'' (Some 400)))) \<and>
         (sha256_hex e (params_token rq2) \<noteq> sha256_hex e secret \<and>
          (\<forall>r\<in>set d. uid r \<noteq> uid u \<longrightarrow>
             passwordResetToken r \<noteq> Some (sha256_hex e (params_token rq2))) \<longrightarrow>
            resetPassword e k k' rq2 d1 =
              (d1, NextErr (AppError ''Token is invalid or has expired.'' (Some 400))))"
proof -
  define h where "h = sha256_hex e secret"
  define x where "x = now + 600000"
  obtain row where row: "row \<in> set d" and u: "u = select_default row" and act: "active row"
    using found by (rule findOne_email_row)
  define row1 where "row1 = row\<lparr>passwordResetToken := Some h, passwordResetExpires := Some x\<rparr>"
  have d1': "d1 = map (write_row False (snd (createPasswordResetToken e now u))) d"
    using forgotPassword_sent [OF cast found sent [unfolded sec]] d1 by simp
  have hh: "h = sha256_hex e (fst (createPasswordResetToken e now u))"
    by (simp add: h_def sec)
  note af = after_forgot [OF dist row u d1' hh]
  have in1: "row1 \<in> set d1"
    using af(2) by (simp add: row1_def x_def)
  have mine: "r = row1" if "r \<in> set d1" and "uid r = uid u" for r
    using af(3) that by (simp add: row1_def x_def)
  have theirs: "r \<in> set d \<and> passwordResetToken r \<noteq> Some h"
    if "r \<in> set d1" and "uid r \<noteq> uid u" for r
    using af(4) that fresh by (auto simp: h_def)
  have others: "\<forall>r\<in>set d1. r \<noteq> row1 \<longrightarrow> passwordResetToken r \<noteq> Some h"
    using mine theirs by blast
  have row1_fields: "active row1" "passwordResetToken row1 = Some h"
      "passwordResetExpires row1 = Some x" "uid row1 = uid u"
    using act u by (simp_all add: row1_def select_default_def)
  have ptok: "sha256_hex e (params_token rq) = h"
    by (simp add: tok h_def)

  have success:
    "snd (resetPassword e n n' rq d1) =
       createSendToken e
         (u\<lparr>password := Some (bcrypt_hash e p), passwordConfirm := None,
            passwordChangedAt := Some (n' - 1000),
            passwordResetToken := None, passwordResetExpires := None\<rparr>) 200 \<and>
     delivered_token (snd (resetPassword e n n' rq d1)) = Some (signToken e (uid u)) \<and>
     (\<forall>r\<in>set d2. uid r = uid u \<longrightarrow>
        passwordResetToken r = None \<and> passwordResetExpires r = None \<and>
        password r = Some (bcrypt_hash e p)) \<and>
     (\<forall>m m' rq'. params_token rq' = secret \<longrightarrow>
        resetPassword e m m' rq' d2 =
          (d2, NextErr (AppError ''Token is invalid or has expired.'' (Some 400))))"
    if pw: "b_password (req_body rq) = JString p" and len: "8 \<le> length p"
      and pc: "b_passwordConfirm (req_body rq) = JString p"
      and nm: "required (name u)" and em: "required (email u)"
      and ie: "case email u of None \<Rightarrow> False | Some a \<Rightarrow> isEmail e a"
      and ro: "role u \<in> set role_enum"
      and time: "n < now + 600000"
  proof -
    define u2 where "u2 = u\<lparr>password := Some (bcrypt_hash e p), passwordConfirm := None,
            passwordChangedAt := Some (n' - 1000),
            passwordResetToken := None, passwordResetExpires := None\<rparr>"
    let ?v = "select_default row1"
    have fnd: "findOne_reset d1 (sha256_hex e (params_token rq)) n = Some ?v"
      unfolding ptok
      using findOne_reset_found [OF in1 row1_fields(1,2,3) _ others] time
      by (simp add: x_def)
    have v: "name ?v = name u" "email ?v = email u" "role ?v = role u"
      using u by (simp_all add: row1_def select_default_def)
    have u2v: "u2 = ?v\<lparr>password := Some (bcrypt_hash e p), passwordConfirm := None,
                 passwordChangedAt := Some (n' - 1000),
                 passwordResetToken := None, passwordResetExpires := None\<rparr>"
      unfolding u2_def u row1_def select_default_def by (cases row) simp
    have rp: "resetPassword e n n' rq d1 = (map (write_row True u2) d1, createSendToken e u2 200)"
      using resetPassword_success [OF fnd pw len pc _ _ _ _ u2v] nm em ie ro v by simp
    have d2': "d2 = map (write_row True u2) d1"
      by (simp add: d2 rp)
    have u2_fields: "uid u2 = uid u" "passwordResetToken u2 = None"
        "passwordResetExpires u2 = None" "password u2 = Some (bcrypt_hash e p)"
      by (simp_all add: u2_def)
    have a: "snd (resetPassword e n n' rq d1) = createSendToken e u2 200"
      by (simp add: rp)
    have b: "delivered_token (snd (resetPassword e n n' rq d1)) = Some (signToken e (uid u))"
      by (simp add: rp createSendToken_def delivered_token_def Let_def u2_fields)
    have rows2: "(uid r = uid u \<longrightarrow>
           passwordResetToken r = None \<and> passwordResetExpires r = None \<and>
           password r = Some (bcrypt_hash e p)) \<and>
         (uid r \<noteq> uid u \<longrightarrow> passwordResetToken r \<noteq> Some h)" if "r \<in> set d2" for r
    proof -
      from that obtain r1 where r1: "r1 \<in> set d1" and e: "r = write_row True u2 r1"
        unfolding d2' by auto
      show ?thesis
      proof (cases "uid r1 = uid u")
        case True
        then show ?thesis
          using e u2_fields by (simp add: write_row_def)
      next
        case False
        then have "r = r1"
          using e u2_fields by (simp add: write_row_def)
        then show ?thesis
          using theirs [OF r1 False] False by simp
      qed
    qed
    have c: "\<forall>r\<in>set d2. uid r = uid u \<longrightarrow>
        passwordResetToken r = None \<and> passwordResetExpires r = None \<and>
        password r = Some (bcrypt_hash e p)"
      using rows2 by blast
    have noh: "\<forall>r\<in>set d2. passwordResetToken r \<noteq> Some h"
      using rows2 by (metis option.distinct(1))
    have dd: "resetPassword e m m' rq' d2 =
          (d2, NextErr (AppError ''Token is invalid or has expired.'' (Some 400)))"
      if "params_token rq' = secret" for m m' rq'
    proof (rule resetPassword_refused, intro ballI impI)
      fix r assume "r \<in> set d2"
        and "passwordResetToken r = Some (sha256_hex e (params_token rq'))"
      then have False using noh that by (simp add: h_def)
      then show "case passwordResetExpires r of None \<Rightarrow> True | Some x \<Rightarrow> x \<le> m" ..
    qed
    show ?thesis
      unfolding u2_def [symmetric] using a b c dd by blast
  qed

  have expired: "resetPassword e n n' rq d1 =
       (d1, NextErr (AppError ''Token is invalid or has expired.'' (Some 400)))"
    if late: "now + 600000 \<le> n"
  proof (rule resetPassword_refused, intro ballI impI)
    fix r assume r: "r \<in> set d1"
      and t: "passwordResetToken r = Some (sha256_hex e (params_token rq))"
    have "r = row1"
      using others r t ptok by auto
    then show "case passwordResetExpires r of None \<Rightarrow> True | Some x \<Rightarrow> x \<le> n"
      using row1_fields(3) late by (simp add: x_def)
  qed

  have wrong: "resetPassword e k k' rq2 d1 =
       (d1, NextErr (AppError ''Token is invalid or has expired.'' (Some 400)))"
    if ne: "sha256_hex e (params_token rq2) \<noteq> sha256_hex e secret"
      and oth: "\<forall>r\<in>set d. uid r \<noteq> uid u \<longrightarrow>
             passwordResetToken r \<noteq> Some (sha256_hex e (params_token rq2))"
  proof (rule resetPassword_refused, intro ballI impI)
    fix r assume r: "r \<in> set d1"
      and t: "passwordResetToken r = Some (sha256_hex e (params_token rq2))"
    have False
    proof (cases "uid r = uid u")
      case True
      then have "r = row1" using mine r by blast
      then show False using t row1_fields(2) ne by (simp add: h_def)
    next
      case False
      then have "r \<in> set d" using theirs r by blast
      then show False using oth False t by blast
    qed
    then show "case passwordResetExpires r of None \<Rightarrow> True | Some x \<Rightarrow> x \<le> k" ..
  qed

  show ?thesis
    using success expired wrong by blast
qed


theorem reset_token_once_witness:
  "delivered_token (snd (resetPassword env0 2000 2001
      (mk_request None None (mk_body None None (Some ''newpass123'') (Some ''newpass123''))
         ''030b131b232b333b434b535b636b737b838b939ba3abb3bbc3cbd3dbe3ebf3fb'')
      (fst (forgotPassword env0 1000
         (mk_request None None (mk_body None (Some ''Ana@X.com'') None None) []) db0))))
     = Some ''t1'' \<and>
   resetPassword env0 3000 3001
      (mk_request None None (mk_body None None (Some ''newpass123'') (Some ''newpass123''))
         ''030b131b232b333b434b535b636b737b838b939ba3abb3bbc3cbd3dbe3ebf3fb'')
      (fst (resetPassword env0 2000 2001
         (mk_request None None (mk_body None None (Some ''newpass123'') (Some ''newpass123''))
            ''030b131b232b333b434b535b636b737b838b939ba3abb3bbc3cbd3dbe3ebf3fb'')
         (fst (forgotPassword env0 1000
            (mk_request None None (mk_body None (Some ''Ana@X.com'') None None) []) db0))))
     = (fst (resetPassword env0 2000 2001
         (mk_request None None (mk_body None None (Some ''newpass123'') (Some ''newpass123''))
            ''030b131b232b333b434b535b636b737b838b939ba3abb3bbc3cbd3dbe3ebf3fb'')
         (fst (forgotPassword env0 1000
            (mk_request None None (mk_body None (Some ''Ana@X.com'') None None) []) db0))),
        NextErr (AppError ''Token is invalid or has expired.'' (Some 400))) \<and>
   resetPassword env0 601000 601001
      (mk_request None None (mk_body None None (Some ''newpass123'') (Some ''newpass123''))
         ''030b131b232b333b434b535b636b737b838b939ba3abb3bbc3cbd3dbe3ebf3fb'')
      (fst (forgotPassword env0 1000
         (mk_request None None (mk_body None (Some ''Ana@X.com'') None None) []) db0))
     = (fst (forgotPassword env0 1000
         (mk_request None None (mk_body None (Some ''Ana@X.com'') None None) []) db0),
        NextErr (AppError ''Token is invalid or has expired.'' (Some 400)))"
proof -
  let ?req = "mk_request None None (mk_body None (Some ''Ana@X.com'') None None) []"
  let ?rq = "mk_request None None (mk_body None None (Some ''newpass123'') (Some ''newpass123''))
         ''030b131b232b333b434b535b636b737b838b939ba3abb3bbc3cbd3dbe3ebf3fb''"
  let ?u = "select_default (mk_user 1 ''ana'' ''longpass1'' None True)"
  let ?secret = "fst (createPasswordResetToken env0 1000 ?u)"
  let ?d1 = "fst (forgotPassword env0 1000 ?req db0)"
  have hex: "toString_hex (randomBytes env0 32) =
     ''030b131b232b333b434b535b636b737b838b939ba3abb3bbc3cbd3dbe3ebf3fb''"
    by (simp add: toString_hex_def randomBytes_def env0_def hex_byte_def hex_digit_def upt_rec)
  have dist: "distinct (map uid db0)"
    by (simp add: run_defs)
  have cast: "castString env0 (b_email (req_body ?req)) = Inr (Some ''Ana@X.com'')"
    by (simp add: run_defs)
  have found: "findOne_email env0 db0 (Some ''Ana@X.com'') = Some ?u"
    by (simp add: run_defs)
  have sent: "sendPasswordReset env0 (snd (createPasswordResetToken env0 1000 ?u))
                 (protocol ?req @ ''://'' @ host ?req @ ''/api/v1/users/resetPassword/'' @ ?secret)"
    by (simp add: env0_def)
  have fresh: "\<forall>r\<in>set db0. uid r \<noteq> uid ?u \<longrightarrow>
                 passwordResetToken r \<noteq> Some (sha256_hex env0 ?secret)"
    by (simp add: run_defs)
  have tok: "params_token ?rq = ?secret"
    by (simp add: mk_request_def createPasswordResetToken_def Let_def hex)
  have hyp: "b_password (req_body ?rq) = JString ''newpass123'' \<and> 8 \<le> length ''newpass123'' \<and>
          b_passwordConfirm (req_body ?rq) = JString ''newpass123'' \<and>
          required (name ?u) \<and> required (email ?u) \<and>
          (case email ?u of None \<Rightarrow> False | Some a \<Rightarrow> isEmail env0 a) \<and>
          role ?u \<in> set role_enum \<and>
          (2000 :: int) < 1000 + 600000"
    by (simp add: run_defs required_def)
  have late: "(1000 :: int) + 600000 \<le> 601000"
    by simp
  have st: "signToken env0 (uid ?u) = ''t1''"
    by (simp add: signToken_def run_defs)
  note A = reset_token_once [OF dist cast found refl sent fresh refl refl tok,
      where n = 2000 and n' = 2001 and p = "''newpass123''", THEN conjunct1, THEN mp, OF hyp]
  note B = reset_token_once [OF dist cast found refl sent fresh refl refl tok,
      where n = 601000 and n' = 601001, THEN conjunct2, THEN conjunct1, THEN mp, OF late]
  have a: "delivered_token (snd (resetPassword env0 2000 2001 ?rq ?d1)) = Some ''t1''"
    using A [THEN conjunct2, THEN conjunct1] by (simp only: st)
  have b: "resetPassword env0 3000 3001 ?rq (fst (resetPassword env0 2000 2001 ?rq ?d1)) =
     (fst (resetPassword env0 2000 2001 ?rq ?d1),
      NextErr (AppError ''Token is invalid or has expired.'' (Some 400)))"
    using A [THEN conjunct2, THEN conjunct2, THEN conjunct2, THEN spec, THEN spec, THEN spec,
        THEN mp, OF tok] .
  have c: "resetPassword env0 601000 601001 ?rq ?d1 =
     (?d1, NextErr (AppError ''Token is invalid or has expired.'' (Some 400)))"
    using B .
  show ?thesis using a b c by (intro conjI)
qed

end
